theory Spec2Isabelle
  imports Complex_Main "HOL-Library.AList"
begin

section \<open>Face store and matcher (core/face\_recognition.py)\<close>

text \<open>
  An embedding is a vector of floats, modelled as a list of reals. Floating point is
  abstracted to exact real arithmetic; all embeddings come from the same detector model
  and have one length, so the shape check of \<open>np.dot\<close> is not modelled.
\<close>

type_synonym embedding = "real list"

text \<open>The value stored per person: the dict \<open>{'name': ..., 'encoding': ...}\<close>.\<close>

record face_data =
  name :: string
  encoding :: embedding

text \<open>
  \<open>registered_faces\<close> is a Python dict: keys unique, iteration in insertion order.
  It is an association list, updated with \<open>AList.update\<close> (an existing key keeps its
  place, a new key goes to the end) and \<open>AList.delete\<close>.
\<close>

type_synonym registry = "(string \<times> face_data) list"

text \<open>The pickle file on disk.\<close>

datatype pkl_file = Missing | Corrupt | Pickled registry

text \<open>
  What the file system does when \<open>save_face_encodings\<close> writes: the write succeeds,
  \<open>open\<close> raises (the file is untouched), or \<open>pickle.dump\<close> raises after the file
  was opened for writing (the file is left truncated).
\<close>

datatype save_outcome = SaveOk | OpenFails | DumpFails

record face_handler =
  registered_faces :: registry
  similarity_threshold :: real
  face_db_file :: pkl_file

definition load_face_encodings :: "face_handler \<Rightarrow> registry" where
  "load_face_encodings fh =
     (case face_db_file fh of
        Pickled r \<Rightarrow> r
      | Corrupt \<Rightarrow> []
      | Missing \<Rightarrow> [])"

definition save_face_encodings :: "save_outcome \<Rightarrow> face_handler \<Rightarrow> bool \<times> face_handler" where
  "save_face_encodings io fh =
     (case io of
        SaveOk \<Rightarrow> (True, fh\<lparr>face_db_file := Pickled (registered_faces fh)\<rparr>)
      | OpenFails \<Rightarrow> (False, fh)
      | DumpFails \<Rightarrow> (False, fh\<lparr>face_db_file := Corrupt\<rparr>))"

definition add_face_encoding ::
  "save_outcome \<Rightarrow> string \<Rightarrow> string \<Rightarrow> embedding \<Rightarrow> face_handler \<Rightarrow> bool \<times> face_handler" where
  "add_face_encoding io person_id nm face_encoding fh =
     save_face_encodings io
       (fh\<lparr>registered_faces :=
             AList.update person_id \<lparr>name = nm, encoding = face_encoding\<rparr> (registered_faces fh)\<rparr>)"

definition remove_face_encoding ::
  "save_outcome \<Rightarrow> string \<Rightarrow> face_handler \<Rightarrow> bool \<times> face_handler" where
  "remove_face_encoding io person_id fh =
     (if person_id \<in> fst ` set (registered_faces fh)
      then save_face_encodings io
             (fh\<lparr>registered_faces := AList.delete person_id (registered_faces fh)\<rparr>)
      else (False, fh))"

definition reload_face_encodings :: "face_handler \<Rightarrow> nat \<times> face_handler" where
  "reload_face_encodings fh =
     (let r = load_face_encodings fh in (length r, fh\<lparr>registered_faces := r\<rparr>))"

definition update_similarity_threshold :: "real \<Rightarrow> face_handler \<Rightarrow> bool \<times> face_handler" where
  "update_similarity_threshold new_threshold fh =
     (if 0 \<le> new_threshold \<and> new_threshold \<le> 1
      then (True, fh\<lparr>similarity_threshold := new_threshold\<rparr>)
      else (False, fh))"

subsection \<open>Cosine similarity and best match\<close>

definition np_dot :: "embedding \<Rightarrow> embedding \<Rightarrow> real" where
  "np_dot a b = sum_list (map (\<lambda>(x, y). x * y) (zip a b))"

definition np_linalg_norm :: "embedding \<Rightarrow> real" where
  "np_linalg_norm a = sqrt (sum_list (map (\<lambda>x. x * x) a))"

text \<open>
  Where a norm is zero numpy yields \<open>nan\<close>, which fails every comparison of
  \<open>recognize_face\<close>; HOL's division yields \<open>0\<close>, which fails them as well, since the
  running maximum starts at \<open>0.0\<close> and never decreases.
\<close>

definition calculate_similarity :: "embedding \<Rightarrow> embedding \<Rightarrow> real" where
  "calculate_similarity encoding1 encoding2 =
     np_dot encoding1 encoding2 / (np_linalg_norm encoding1 * np_linalg_norm encoding2)"

text \<open>
  The loop of \<open>recognize_face\<close> over \<open>registered_faces.items()\<close>; the accumulator is
  \<open>(recognized_id, recognized_name, max_similarity)\<close>.
\<close>

fun recognize_loop ::
  "real \<Rightarrow> embedding \<Rightarrow> registry \<Rightarrow> string option \<times> string option \<times> real
     \<Rightarrow> string option \<times> string option \<times> real" where
  "recognize_loop thr face_encoding [] acc = acc"
| "recognize_loop thr face_encoding ((person_id, data) # rest)
      (recognized_id, recognized_name, max_similarity) =
     (let similarity = calculate_similarity face_encoding (encoding data) in
      if similarity > max_similarity \<and> similarity > thr
      then recognize_loop thr face_encoding rest (Some person_id, Some (name data), similarity)
      else recognize_loop thr face_encoding rest (recognized_id, recognized_name, max_similarity))"

definition recognize_face ::
  "face_handler \<Rightarrow> embedding \<Rightarrow> string option \<times> string option \<times> real" where
  "recognize_face fh face_encoding =
     (if length (registered_faces fh) = 0 then (None, None, 0)
      else recognize_loop (similarity_threshold fh) face_encoding (registered_faces fh)
             (None, None, 0))"

definition verify_face :: "face_handler \<Rightarrow> string \<Rightarrow> embedding \<Rightarrow> bool \<times> real" where
  "verify_face fh person_id face_encoding =
     (case map_of (registered_faces fh) person_id of
        None \<Rightarrow> (False, 0)
      | Some data \<Rightarrow>
          (let similarity = calculate_similarity face_encoding (encoding data) in
           (similarity > similarity_threshold fh, similarity)))"

section \<open>Python strings\<close>

text \<open>
  Strings are lists of characters; a character stands for a code point below 256.
  \<open>py_in s t\<close> is Python's \<open>s in t\<close> on strings.
\<close>

fun py_startswith :: "string \<Rightarrow> string \<Rightarrow> bool" where
  "py_startswith [] t = True"
| "py_startswith (c # s) [] = False"
| "py_startswith (c # s) (d # t) = (c = d \<and> py_startswith s t)"

fun py_in :: "string \<Rightarrow> string \<Rightarrow> bool" where
  "py_in s [] = (s = [])"
| "py_in s (d # t) = (py_startswith s (d # t) \<or> py_in s t)"

text \<open>
  The code points below 256 that \<open>int()\<close> skips before and after the number: tab to
  carriage return, space, U+0085 and U+00A0. The separators U+001C to U+001F are not
  among them, although \<open>str.isspace\<close> holds for them.
\<close>

definition py_isspace :: "char \<Rightarrow> bool" where
  "py_isspace c = (of_char c \<in> {9, 10, 11, 12, 13, 32, 133, 160 :: nat})"

definition py_strip :: "string \<Rightarrow> string" where
  "py_strip s = rev (dropWhile py_isspace (rev (dropWhile py_isspace s)))"

definition py_isdigit :: "char \<Rightarrow> bool" where
  "py_isdigit c = (48 \<le> (of_char c :: nat) \<and> (of_char c :: nat) \<le> 57)"

text \<open>
  The digits of a decimal literal: digits, with single underscores allowed between two
  digits. The flag says whether the previous character was a digit.
\<close>

fun py_digits :: "int \<Rightarrow> bool \<Rightarrow> string \<Rightarrow> int option" where
  "py_digits acc prev [] = (if prev then Some acc else None)"
| "py_digits acc prev (c # cs) =
     (if py_isdigit c then py_digits (10 * acc + (int (of_char c) - 48)) True cs
      else if c = CHR ''_'' \<and> prev then py_digits acc False cs
      else None)"

text \<open>\<open>int(s)\<close> on a string: \<open>None\<close> where Python raises \<open>ValueError\<close>.\<close>

definition py_int :: "string \<Rightarrow> int option" where
  "py_int s =
     (case py_strip s of
        [] \<Rightarrow> None
      | c # cs \<Rightarrow>
          if c = CHR ''-'' then map_option uminus (py_digits 0 False cs)
          else if c = CHR ''+'' then py_digits 0 False cs
          else py_digits 0 False (c # cs))"

text \<open>
  The number that a string of decimal digits denotes, read from the left. It is the
  reference for the hour that an \<open>HH:MM\<close> shift end configures, and is not used by the
  model of the code.
\<close>

definition decimal :: "string \<Rightarrow> int" where
  "decimal ds = foldl (\<lambda>a c. 10 * a + (int (of_char c) - 48)) 0 ds"

text \<open>\<open>s.split(':')[0]\<close>: the part of \<open>s\<close> before the first colon.\<close>

definition split_colon_first :: "string \<Rightarrow> string" where
  "split_colon_first s = takeWhile (\<lambda>c. c \<noteq> CHR '':'') s"

text \<open>\<open>str(n)\<close> of an integer, for the f-strings that print a tracker id.\<close>

fun str_nat :: "nat \<Rightarrow> string" where
  "str_nat n =
     (if n < 10 then [char_of (48 + n)]
      else str_nat (n div 10) @ [char_of (48 + n mod 10)])"

declare str_nat.simps [simp del]

definition str_int :: "int \<Rightarrow> string" where
  "str_int i = (if i < 0 then CHR ''-'' # str_nat (nat (- i)) else str_nat (nat i))"

text \<open>How an f-string prints a value that may be \<open>None\<close>.\<close>

definition str_opt :: "string option \<Rightarrow> string" where
  "str_opt v = (case v of None \<Rightarrow> ''None'' | Some s \<Rightarrow> s)"

section \<open>The relational store (database/database.py)\<close>

text \<open>
  Exceptions are values. \<open>DatabaseError m\<close> is a \<open>mysql.connector.Error\<close> whose text is
  \<open>m\<close>; \<open>CallbackError m\<close> is any other exception raised by a collaborator.
\<close>

datatype error = DatabaseError string | CallbackError string

text \<open>
  The calls to the MySQL connector that can fail. The environment decides which of them
  fail during one call of a database method: \<open>faults op = Some m\<close> means that \<open>op\<close>
  raises \<open>mysql.connector.Error\<close> with text \<open>m\<close>.
\<close>

datatype db_op =
  Connect | Cursor | SelectPerson | SelectAttendance | InsertAttendance
  | UpdateAttendance | InsertFaceLog | InsertUnknownFace | Commit

type_synonym faults = "db_op \<Rightarrow> string option"

record attendance_row =
  att_id :: nat
  att_person_id :: string
  att_date :: string
  arrival_time :: "string option"
  leaving_time :: "string option"
  status :: "string option"

record face_log_row =
  log_person_id :: string
  log_name :: string
  log_date :: string
  log_time :: string

record unknown_face_row =
  snapshot_path :: string
  face_encoding :: embedding

text \<open>
  The tables. \<open>persons\<close> maps the primary key \<open>person_id\<close> to the column the
  attendance code reads, \<open>shift_end\<close> (\<open>None\<close> is SQL \<open>NULL\<close>). Columns are compared
  by equality of strings; the collation of the server is not modelled.
\<close>

record db =
  persons :: "string \<rightharpoonup> string option"
  attendance :: "attendance_row list"
  attendance_auto_increment :: nat
  face_logs :: "face_log_row list"
  unknown_faces :: "unknown_face_row list"

text \<open>
  The readings of the system clock taken by one call: \<open>date.today().isoformat()\<close>,
  and of \<open>datetime.now()\<close> its \<open>strftime('%Y-%m-%d')\<close>, \<open>strftime('%H:%M:%S')\<close> and
  \<open>hour\<close>.
\<close>

record clock =
  today :: string
  current_date :: string
  current_time :: string
  hour :: int

text \<open>\<open>SELECT id FROM attendance WHERE person_id = %s AND date = %s\<close>, \<open>fetchone\<close>.\<close>

definition select_attendance :: "string \<Rightarrow> string \<Rightarrow> db \<Rightarrow> attendance_row option" where
  "select_attendance person_id day d =
     find (\<lambda>r. att_person_id r = person_id \<and> att_date r = day) (attendance d)"

text \<open>
  \<open>INSERT INTO attendance\<close>: the foreign key and the unique key
  \<open>(person_id, date)\<close> are checked by the server, which raises an integrity error.
\<close>

definition insert_attendance ::
  "string \<Rightarrow> string \<Rightarrow> string \<Rightarrow> string \<Rightarrow> db \<Rightarrow> string + db" where
  "insert_attendance person_id day arrival leaving d =
     (if persons d person_id = None then Inl ''Cannot add or update a child row''
      else if select_attendance person_id day d \<noteq> None then Inl ''Duplicate entry''
      else Inr (d\<lparr>attendance := attendance d @
                   [\<lparr>att_id = attendance_auto_increment d, att_person_id = person_id,
                     att_date = day, arrival_time = Some arrival,
                     leaving_time = Some leaving, status = Some ''Present''\<rparr>],
                 attendance_auto_increment := Suc (attendance_auto_increment d)\<rparr>))"

text \<open>\<open>UPDATE attendance SET leaving_time = %s WHERE person_id = %s AND date = %s\<close>.\<close>

definition update_leaving_time :: "string \<Rightarrow> string \<Rightarrow> string \<Rightarrow> db \<Rightarrow> db" where
  "update_leaving_time leaving person_id day d =
     d\<lparr>attendance :=
         map (\<lambda>r. if att_person_id r = person_id \<and> att_date r = day
                   then r\<lparr>leaving_time := Some leaving\<rparr> else r)
             (attendance d)\<rparr>"

text \<open>
  The hour of the person's shift end: \<open>int(user_shift_end_str.split(':')[0])\<close>, and
  18 where that raises (the bare \<open>except\<close>), which covers a \<open>NULL\<close> column too.
\<close>

definition user_shift_end_hour :: "string option \<Rightarrow> int" where
  "user_shift_end_hour user_shift_end_str =
     (case user_shift_end_str of
        None \<Rightarrow> 18
      | Some s \<Rightarrow> (case py_int (split_colon_first s) of None \<Rightarrow> 18 | Some h \<Rightarrow> h))"

text \<open>
  \<open>sync_daily_attendance\<close>. The connection and the cursor are obtained before the
  \<open>try\<close>; every later call is inside it, and its \<open>mysql.connector.Error\<close> becomes
  the string \<open>DB Error: ...\<close>. Statements take effect at \<open>commit\<close>: when an execute or
  the commit fails the connection is closed without one and the tables are unchanged.
\<close>

definition sync_daily_attendance :: "faults \<Rightarrow> clock \<Rightarrow> string \<Rightarrow> db \<Rightarrow> (error + string) \<times> db" where
  "sync_daily_attendance fl clk person_id d =
     (case fl Connect of
        Some m \<Rightarrow> (Inl (DatabaseError m), d)
      | None \<Rightarrow>
     (case fl Cursor of
        Some m \<Rightarrow> (Inl (DatabaseError m), d)
      | None \<Rightarrow>
     (case fl SelectPerson of
        Some m \<Rightarrow> (Inr (''DB Error: '' @ m), d)
      | None \<Rightarrow>
     (case persons d person_id of
        None \<Rightarrow> (Inr ''Error: Person not found'', d)
      | Some user_shift_end_str \<Rightarrow>
     (case fl SelectAttendance of
        Some m \<Rightarrow> (Inr (''DB Error: '' @ m), d)
      | None \<Rightarrow>
     (case select_attendance person_id (today clk) d of
        None \<Rightarrow>
          (case fl InsertAttendance of
             Some m \<Rightarrow> (Inr (''DB Error: '' @ m), d)
           | None \<Rightarrow>
          (case insert_attendance person_id (today clk) (current_time clk) (current_time clk) d of
             Inl m \<Rightarrow> (Inr (''DB Error: '' @ m), d)
           | Inr d' \<Rightarrow>
          (case fl Commit of
             Some m \<Rightarrow> (Inr (''DB Error: '' @ m), d)
           | None \<Rightarrow> (Inr (''LOGIN: '' @ current_time clk), d'))))
      | Some row \<Rightarrow>
          (case fl UpdateAttendance of
             Some m \<Rightarrow> (Inr (''DB Error: '' @ m), d)
           | None \<Rightarrow>
          (case fl Commit of
             Some m \<Rightarrow> (Inr (''DB Error: '' @ m), d)
           | None \<Rightarrow>
               (if hour clk \<ge> user_shift_end_hour user_shift_end_str
                then Inr (''LOGOUT UPDATE: '' @ current_time clk)
                else Inr (''Shift Ongoing (Ends '' @ str_opt user_shift_end_str @ '')''),
                update_leaving_time (current_time clk) person_id (today clk) d)))))))))"

text \<open>
  \<open>log_raw_detection\<close>: connection and cursor before the \<open>try\<close>; inside it every
  exception is printed and swallowed. The method returns nothing.
\<close>

definition log_raw_detection ::
  "faults \<Rightarrow> clock \<Rightarrow> string \<Rightarrow> string \<Rightarrow> db \<Rightarrow> (error + unit) \<times> db" where
  "log_raw_detection fl clk person_id person_name d =
     (case fl Connect of
        Some m \<Rightarrow> (Inl (DatabaseError m), d)
      | None \<Rightarrow>
     (case fl Cursor of
        Some m \<Rightarrow> (Inl (DatabaseError m), d)
      | None \<Rightarrow>
          (if fl InsertFaceLog \<noteq> None \<or> persons d person_id = None \<or> fl Commit \<noteq> None
           then (Inr (), d)
           else (Inr (),
                 d\<lparr>face_logs := face_logs d @
                      [\<lparr>log_person_id = person_id, log_name = person_name,
                        log_date = current_date clk, log_time = current_time clk\<rparr>]\<rparr>))))"

text \<open>\<open>log_unknown_person\<close>: the same shape; it returns whether the row was stored.\<close>

definition log_unknown_person ::
  "faults \<Rightarrow> string \<Rightarrow> embedding \<Rightarrow> db \<Rightarrow> (error + bool) \<times> db" where
  "log_unknown_person fl path enc d =
     (case fl Connect of
        Some m \<Rightarrow> (Inl (DatabaseError m), d)
      | None \<Rightarrow>
     (case fl Cursor of
        Some m \<Rightarrow> (Inl (DatabaseError m), d)
      | None \<Rightarrow>
          (if fl InsertUnknownFace \<noteq> None \<or> fl Commit \<noteq> None
           then (Inr False, d)
           else (Inr True,
                 d\<lparr>unknown_faces := unknown_faces d @
                      [\<lparr>snapshot_path = path, face_encoding = enc\<rparr>]\<rparr>))))"

section \<open>The attendance gate (core/attendance\_tracker.py)\<close>

text \<open>
  The timers of \<open>AttendanceTracker\<close>. \<open>time.time()\<close> is a float, modelled as a real.
\<close>

record attendance_tracker =
  last_log_time :: "string \<rightharpoonup> real"
  last_attendance_time :: "string \<rightharpoonup> real"
  last_unknown_alert_time :: real

definition init_tracker :: attendance_tracker where
  "init_tracker =
     \<lparr>last_log_time = Map.empty, last_attendance_time = Map.empty,
      last_unknown_alert_time = 0\<rparr>"

text \<open>
  What one call of a tracker method reads from its environment: \<open>time.time()\<close>, the
  clock readings of the database methods, and the faults of each database method it
  may call.
\<close>

record call_env =
  current_ts :: real
  clk :: clock
  log_faults :: faults
  sync_faults :: faults
  unknown_faults :: faults

text \<open>
  \<open>process_recognized_face\<close>. The result is the returned pair or the exception, the
  sentences handed to \<open>voice.speak\<close>, and the state. The two timers are written after
  the database call they guard, so an exception of that call leaves them unchanged.
\<close>

definition process_recognized_face ::
  "call_env \<Rightarrow> string \<Rightarrow> string \<Rightarrow> attendance_tracker \<times> db
     \<Rightarrow> (error + bool \<times> string option) \<times> string list \<times> (attendance_tracker \<times> db)" where
  "process_recognized_face env person_id person_name st =
     (let (tr, d) = st;
          logged =
            (if last_log_time tr person_id = None
                \<or> current_ts env - the (last_log_time tr person_id) > 90
             then (case log_raw_detection (log_faults env) (clk env) person_id person_name d of
                     (Inl e, d1) \<Rightarrow> Inl (e, (tr, d1))
                   | (Inr u, d1) \<Rightarrow>
                       Inr (tr\<lparr>last_log_time := (last_log_time tr)(person_id \<mapsto> current_ts env)\<rparr>, d1))
             else Inr (tr, d))
      in case logged of
           Inl (e, st1) \<Rightarrow> (Inl e, [], st1)
         | Inr (tr1, d1) \<Rightarrow>
             if last_attendance_time tr1 person_id = None
                \<or> current_ts env - the (last_attendance_time tr1 person_id) > 5
             then (case sync_daily_attendance (sync_faults env) (clk env) person_id d1 of
                     (Inl e, d2) \<Rightarrow> (Inl e, [], (tr1, d2))
                   | (Inr msg, d2) \<Rightarrow>
                       (Inr (True, Some (person_name @ '': '' @ msg)),
                        (if py_in ''LOGIN'' msg
                         then [''Welcome, '' @ person_name @ ''. Login Successful.'']
                         else if py_in ''LOGOUT UPDATE'' msg
                         then [''Goodbye, '' @ person_name @ ''. Logout Updated.'']
                         else []),
                        (tr1\<lparr>last_attendance_time :=
                               (last_attendance_time tr1)(person_id \<mapsto> current_ts env)\<rparr>, d2)))
             else (Inr (True, None), [], (tr1, d1)))"

text \<open>
  \<open>process_unknown_person\<close>. The second component of the result says whether the
  alert thread was started by this call.
\<close>

definition process_unknown_person ::
  "call_env \<Rightarrow> string \<Rightarrow> embedding \<Rightarrow> attendance_tracker \<times> db
     \<Rightarrow> (error + bool) \<times> bool \<times> (attendance_tracker \<times> db)" where
  "process_unknown_person env path enc st =
     (let (tr, d) = st in
      case log_unknown_person (unknown_faults env) path enc d of
        (Inl e, d1) \<Rightarrow> (Inl e, False, (tr, d1))
      | (Inr result, d1) \<Rightarrow>
          if current_ts env - last_unknown_alert_time tr > 15
          then (Inr result, True, (tr\<lparr>last_unknown_alert_time := current_ts env\<rparr>, d1))
          else (Inr result, False, (tr, d1)))"




fun run_unknown ::
  "(call_env \<times> string \<times> embedding) list \<Rightarrow> attendance_tracker \<times> db
     \<Rightarrow> (real \<times> bool) list \<times> (attendance_tracker \<times> db)" where
  "run_unknown [] st = ([], st)"
| "run_unknown ((env, path, enc) # calls) st =
     (case process_unknown_person env path enc st of
        (out, alert, st1) \<Rightarrow>
          (case run_unknown calls st1 of
             (outs, st2) \<Rightarrow> ((current_ts env, alert) # outs, st2)))"

definition alert_times :: "(real \<times> bool) list \<Rightarrow> real list" where
  "alert_times outs = map fst (filter snd outs)"

section \<open>The frame pipeline (core/video\_processor.py)\<close>

text \<open>A box is \<open>(x1, y1, x2, y2)\<close>.\<close>

type_synonym bbox = "real \<times> real \<times> real \<times> real"

text \<open>A face returned by the detector.\<close>

record face =
  bbox :: bbox
  det_score :: real
  embedding :: embedding

text \<open>
  One entry of the tracker's output: \<open>tracker_id[i]\<close> and \<open>xyxy[i]\<close>, together with
  the reading \<open>datetime.now().strftime('%Y%m%d_%H%M%S_%f')\<close> that the loop takes at
  this entry if it writes a snapshot.
\<close>

record tracked_detection =
  tracker_id :: int
  xyxy :: bbox
  stamp :: string

text \<open>
  What one call of \<open>process_frame\<close> works on: the state of the face handler at that
  moment, \<open>frame.shape\<close> (height, width, channels), the faces the detector found in the
  frame and the tracked detections that ByteTrack returned for them. Detector and
  tracker are libraries; their outputs are inputs here.
\<close>

record frame_input =
  handler :: face_handler
  frame_shape :: "int \<times> int \<times> int"
  faces :: "face list"
  tracked_detections :: "tracked_detection list"

record video_processor =
  tracker_id_to_person :: "int \<rightharpoonup> string \<times> string"
  logged_unknown_ids :: "int set"

definition init_video_processor :: video_processor where
  "init_video_processor = \<lparr>tracker_id_to_person = Map.empty, logged_unknown_ids = {}\<rparr>"

definition clear_cache :: "video_processor \<Rightarrow> video_processor" where
  "clear_cache v = v\<lparr>tracker_id_to_person := Map.empty, logged_unknown_ids := {}\<rparr>"

text \<open>
  The callbacks are collaborators with a state of their own, of any type \<open>'c\<close>: they
  cannot reach the fields of the video processor. They return or raise.
\<close>

type_synonym 'c mark_callback =
  "string \<Rightarrow> string \<Rightarrow> 'c \<Rightarrow> (error + bool \<times> string option) \<times> 'c"

type_synonym 'c unknown_callback =
  "string \<Rightarrow> embedding \<Rightarrow> 'c \<Rightarrow> (error + bool) \<times> 'c"

fun calculate_iou :: "bbox \<Rightarrow> bbox \<Rightarrow> real" where
  "calculate_iou (a0, a1, a2, a3) (b0, b1, b2, b3) =
     (let xA = max a0 b0;
          yA = max a1 b1;
          xB = min a2 b2;
          yB = min a3 b3;
          interArea = max 0 (xB - xA) * max 0 (yB - yA);
          boxAArea = (a2 - a0) * (a3 - a1);
          boxBArea = (b2 - b0) * (b3 - b1)
      in interArea / (boxAArea + boxBArea - interArea + 1 / 1000000))"

text \<open>The search for the detection that overlaps the track; \<open>(best_face, max_iou)\<close>.\<close>

fun best_face_loop :: "bbox \<Rightarrow> face list \<Rightarrow> face option \<times> real \<Rightarrow> face option \<times> real" where
  "best_face_loop current_bbox [] acc = acc"
| "best_face_loop current_bbox (f # fs) (best_face, max_iou) =
     (let iou = calculate_iou current_bbox (bbox f) in
      if iou > 1 / 2 \<and> iou > max_iou
      then best_face_loop current_bbox fs (Some f, iou)
      else best_face_loop current_bbox fs (best_face, max_iou))"

text \<open>\<open>int(x)\<close> of a float truncates towards zero.\<close>

definition py_trunc :: "real \<Rightarrow> int" where
  "py_trunc x = (if x \<ge> 0 then \<lfloor>x\<rfloor> else \<lceil>x\<rceil>)"

text \<open>
  The number of indices of the slice \<open>start:stop\<close> of an axis of length \<open>n\<close>; a
  negative bound counts from the end.
\<close>

definition py_slice_len :: "int \<Rightarrow> int \<Rightarrow> int \<Rightarrow> int" where
  "py_slice_len n start stop =
     (let lo = (if start < 0 then max 0 (n + start) else min start n);
          hi = (if stop < 0 then max 0 (n + stop) else min stop n)
      in max 0 (hi - lo))"

text \<open>\<open>face_crop.size\<close> of \<open>frame[y1:y2, x1:x2]\<close> after the clamping of the box.\<close>

fun face_crop_size :: "int \<times> int \<times> int \<Rightarrow> bbox \<Rightarrow> int" where
  "face_crop_size (h, w, c) (b0, b1, b2, b3) =
     (let x1 = max 0 (py_trunc b0);
          y1 = max 0 (py_trunc b1);
          x2 = min w (py_trunc b2);
          y2 = min h (py_trunc b3)
      in py_slice_len h y1 y2 * py_slice_len w x1 x2 * c)"

definition UNKNOWN_FACES_DIR :: string where
  "UNKNOWN_FACES_DIR = ''data/unknown_faces''"

text \<open>\<open>os.path.join\<close> of a directory and a file name, on Windows.\<close>

definition os_path_join :: "string \<Rightarrow> string \<Rightarrow> string" where
  "os_path_join dir filename = dir @ [CHR 0x5C] @ filename"

text \<open>
  The state of the loop of \<open>process_frame\<close>: the processor's fields, the collaborators'
  state, the two output lists, and the snapshots written so far by \<open>cv2.imwrite\<close>,
  each with the id of the track it was taken for.
\<close>

record 'c loop_state =
  vp :: video_processor
  cb_state :: 'c
  labels :: "string list"
  messages :: "string list"
  snapshots :: "(int \<times> string) list"

text \<open>Truth of a Python string or \<open>None\<close> in a condition.\<close>

definition truthy :: "string option \<Rightarrow> bool" where
  "truthy v = (case v of None \<Rightarrow> False | Some s \<Rightarrow> s \<noteq> [])"

text \<open>
  The call of \<open>mark_attendance_callback\<close> and the append to \<open>messages\<close>; \<open>cached\<close>
  tells the branch: an existing track also drops the messages that contain
  \<open>Tracking\<close>. An exception leaves the loop at once.
\<close>

definition mark_attendance ::
  "'c mark_callback option \<Rightarrow> bool \<Rightarrow> string \<Rightarrow> string \<Rightarrow> 'c loop_state
     \<Rightarrow> error option \<times> 'c loop_state" where
  "mark_attendance mark_attendance_callback cached person_id person_name ls =
     (let label = person_name @ '' ('' @ person_id @ '')'' in
      case mark_attendance_callback of
        None \<Rightarrow> (None, ls\<lparr>labels := labels ls @ [label]\<rparr>)
      | Some cb \<Rightarrow>
          (case cb person_id person_name (cb_state ls) of
             (Inl e, c) \<Rightarrow> (Some e, ls\<lparr>cb_state := c\<rparr>)
           | (Inr (success, message), c) \<Rightarrow>
               (None,
                ls\<lparr>cb_state := c,
                   messages :=
                     (if success \<and> truthy message
                         \<and> (cached \<longrightarrow> \<not> py_in ''Tracking'' (str_opt message))
                      then messages ls @ [str_opt message] else messages ls),
                   labels := labels ls @ [label]\<rparr>)))"

text \<open>Case 3 of the loop: a track whose face matched nobody.\<close>

definition unknown_track ::
  "'c unknown_callback option \<Rightarrow> frame_input \<Rightarrow> tracked_detection \<Rightarrow> face \<Rightarrow> 'c loop_state
     \<Rightarrow> error option \<times> 'c loop_state" where
  "unknown_track unknown_person_callback fr t best_face ls =
     (let label = ''Unknown #'' @ str_int (tracker_id t) in
      case unknown_person_callback of
        None \<Rightarrow> (None, ls\<lparr>labels := labels ls @ [label]\<rparr>)
      | Some cb \<Rightarrow>
          if tracker_id t \<in> logged_unknown_ids (vp ls)
          then (None, ls\<lparr>labels := labels ls @ [label]\<rparr>)
          else
            (let filepath = os_path_join UNKNOWN_FACES_DIR (''unknown_'' @ stamp t @ ''.jpg'') in
             if face_crop_size (frame_shape fr) (xyxy t) > 0
             then
               (let ls1 = ls\<lparr>snapshots := snapshots ls @ [(tracker_id t, filepath)]\<rparr> in
                case cb filepath (embedding best_face) (cb_state ls1) of
                  (Inl e, c) \<Rightarrow> (Some e, ls1\<lparr>cb_state := c\<rparr>)
                | (Inr r, c) \<Rightarrow>
                    (None,
                     ls1\<lparr>cb_state := c,
                         vp := (vp ls1)\<lparr>logged_unknown_ids :=
                                          insert (tracker_id t) (logged_unknown_ids (vp ls1))\<rparr>,
                         messages := messages ls1
                                       @ [''Logged Unknown Person #'' @ str_int (tracker_id t)],
                         labels := labels ls1 @ [label]\<rparr>))
             else (None, ls\<lparr>labels := labels ls @ [label]\<rparr>)))"

text \<open>
  The body of the loop for one tracked detection. \<open>recognize_face\<close> assigns the id and
  the name together, so a result with an id and no name does not occur.
\<close>

definition process_detection ::
  "'c mark_callback option \<Rightarrow> 'c unknown_callback option \<Rightarrow> frame_input \<Rightarrow> tracked_detection
     \<Rightarrow> 'c loop_state \<Rightarrow> error option \<times> 'c loop_state" where
  "process_detection mark_attendance_callback unknown_person_callback fr t ls =
     (case tracker_id_to_person (vp ls) (tracker_id t) of
        Some (person_id, person_name) \<Rightarrow>
          mark_attendance mark_attendance_callback True person_id person_name ls
      | None \<Rightarrow>
          (case fst (best_face_loop (xyxy t) (faces fr) (None, 0)) of
             None \<Rightarrow>
               (None, ls\<lparr>labels := labels ls @ [''Tracking #'' @ str_int (tracker_id t)]\<rparr>)
           | Some best_face \<Rightarrow>
               (case recognize_face (handler fr) (embedding best_face) of
                  (Some person_id, Some person_name, similarity) \<Rightarrow>
                    if person_id \<noteq> []
                    then mark_attendance mark_attendance_callback False person_id person_name
                           (ls\<lparr>vp := (vp ls)\<lparr>tracker_id_to_person :=
                                   (tracker_id_to_person (vp ls))
                                     (tracker_id t \<mapsto> (person_id, person_name))\<rparr>\<rparr>)
                    else unknown_track unknown_person_callback fr t best_face ls
                | _ \<Rightarrow> unknown_track unknown_person_callback fr t best_face ls)))"

fun process_loop ::
  "'c mark_callback option \<Rightarrow> 'c unknown_callback option \<Rightarrow> frame_input
     \<Rightarrow> tracked_detection list \<Rightarrow> 'c loop_state \<Rightarrow> error option \<times> 'c loop_state" where
  "process_loop mark unknown fr [] ls = (None, ls)"
| "process_loop mark unknown fr (t # ts) ls =
     (case process_detection mark unknown fr t ls of
        (Some e, ls1) \<Rightarrow> (Some e, ls1)
      | (None, ls1) \<Rightarrow> process_loop mark unknown fr ts ls1)"

text \<open>
  \<open>process_frame\<close>: the returned \<open>(labels, messages)\<close> or the exception, the snapshots
  written during the call, and the state after it.
\<close>

definition process_frame ::
  "'c mark_callback option \<Rightarrow> 'c unknown_callback option \<Rightarrow> frame_input
     \<Rightarrow> video_processor \<times> 'c
     \<Rightarrow> (error + string list \<times> string list) \<times> (int \<times> string) list \<times> (video_processor \<times> 'c)" where
  "process_frame mark unknown fr st =
     (case process_loop mark unknown fr (tracked_detections fr)
             \<lparr>vp = fst st, cb_state = snd st, labels = [], messages = [], snapshots = []\<rparr> of
        (Some e, ls) \<Rightarrow> (Inl e, snapshots ls, (vp ls, cb_state ls))
      | (None, ls) \<Rightarrow> (Inr (labels ls, messages ls), snapshots ls, (vp ls, cb_state ls)))"

text \<open>
  The frame loop of \<open>start_automatic_attendance\<close> (main.py) on the frames read so far:
  it calls \<open>process_frame\<close> for each frame and has no handler around the call, so an
  exception ends the loop.
\<close>

fun run_frames ::
  "'c mark_callback option \<Rightarrow> 'c unknown_callback option \<Rightarrow> frame_input list
     \<Rightarrow> video_processor \<times> 'c
     \<Rightarrow> error option \<times> (int \<times> string) list \<times> (video_processor \<times> 'c)" where
  "run_frames mark unknown [] st = (None, [], st)"
| "run_frames mark unknown (fr # frs) st =
     (case process_frame mark unknown fr st of
        (Inl e, snaps, st1) \<Rightarrow> (Some e, snaps, st1)
      | (Inr out, snaps, st1) \<Rightarrow>
          (case run_frames mark unknown frs st1 of
             (r, snaps2, st2) \<Rightarrow> (r, snaps @ snaps2, st2)))"

text \<open>The number of snapshots taken for one track.\<close>

definition snap_count :: "int \<Rightarrow> (int \<times> string) list \<Rightarrow> nat" where
  "snap_count tid snaps = length (filter (\<lambda>s. fst s = tid) snaps)"

text \<open>
  How the snapshots of one track and the set of logged tracks change over a stretch of the
  loop that starts with \<open>n\<close> snapshots and ends with \<open>n'\<close>: the set grows, and either
  no snapshot was taken, or one was, for a track that was not in the set and that is in
  it afterwards if the stretch ended without an exception.
\<close>

definition snap_step :: "int \<Rightarrow> int set \<Rightarrow> nat \<Rightarrow> bool \<Rightarrow> int set \<Rightarrow> nat \<Rightarrow> bool" where
  "snap_step tid logged n ok logged' n' =
     (logged \<subseteq> logged'
      \<and> (n' = n \<or> (n' = Suc n \<and> tid \<notin> logged \<and> (ok \<longrightarrow> tid \<in> logged'))))"

section \<open>Example data\<close>

definition demo_registry :: registry where
  "demo_registry =
     [(''E001'', \<lparr>name = ''Asha'', encoding = [3, 4]\<rparr>),
      (''E002'', \<lparr>name = ''Bala'', encoding = [1, 0]\<rparr>),
      (''E003'', \<lparr>name = ''Chitra'', encoding = [1, 0]\<rparr>)]"

definition demo_handler :: face_handler where
  "demo_handler =
     \<lparr>registered_faces = demo_registry, similarity_threshold = 6 / 10,
      face_db_file = Pickled demo_registry\<rparr>"


definition no_faults :: faults where
  "no_faults = (\<lambda>op. None)"

definition demo_clock :: clock where
  "demo_clock = \<lparr>today = ''2024-03-01'', current_date = ''2024-03-01'',
                  current_time = ''17:00:00'', hour = 17\<rparr>"

definition demo_db :: db where
  "demo_db = \<lparr>persons = [''E001'' \<mapsto> Some ''18:00'', ''E002'' \<mapsto> None],
               attendance = [], attendance_auto_increment = 1,
               face_logs = [], unknown_faces = []\<rparr>"

definition demo_db_present :: db where
  "demo_db_present =
     demo_db\<lparr>attendance :=
               [\<lparr>att_id = 1, att_person_id = ''E001'', att_date = ''2024-03-01'',
                 arrival_time = Some ''09:02:11'', leaving_time = Some ''09:02:11'',
                 status = Some ''Present''\<rparr>,
                \<lparr>att_id = 2, att_person_id = ''E002'', att_date = ''2024-03-01'',
                 arrival_time = Some ''09:30:00'', leaving_time = Some ''16:00:00'',
                 status = Some ''Present''\<rparr>],
             attendance_auto_increment := 3\<rparr>"

definition shifts_db :: db where
  "shifts_db =
     demo_db_present\<lparr>persons := [''E001'' \<mapsto> Some ''09:30'', ''E002'' \<mapsto> Some ''20:00'']\<rparr>"

definition evening_clock :: clock where
  "evening_clock = \<lparr>today = ''2024-03-01'', current_date = ''2024-03-01'',
                     current_time = ''18:30:00'', hour = 18\<rparr>"

definition server_down :: faults where
  "server_down = (\<lambda>op. if op = Connect then Some ''2003: Can't connect to MySQL server'' else None)"

definition demo_env :: call_env where
  "demo_env = \<lparr>current_ts = 1000, clk = demo_clock, log_faults = no_faults,
                sync_faults = no_faults, unknown_faults = no_faults\<rparr>"

definition warm_tracker :: attendance_tracker where
  "warm_tracker = \<lparr>last_log_time = [''E001'' \<mapsto> 990], last_attendance_time = [''E001'' \<mapsto> 990],
                    last_unknown_alert_time = 0\<rparr>"

definition env_at :: "real \<Rightarrow> string \<Rightarrow> call_env" where
  "env_at ts tm =
     \<lparr>current_ts = ts, clk = demo_clock\<lparr>current_time := tm\<rparr>, log_faults = no_faults,
      sync_faults = no_faults, unknown_faults = no_faults\<rparr>"


definition unknown_calls :: "(call_env \<times> string \<times> embedding) list" where
  "unknown_calls =
     [(env_at 1000 ''17:00:00'', ''data/unknown_faces/a.jpg'', [0, 1]),
      (env_at 1005 ''17:00:05'', ''data/unknown_faces/b.jpg'', [0, 1]),
      (env_at 1016 ''17:00:16'', ''data/unknown_faces/c.jpg'', [0, 1])]"

definition known_face :: face where
  "known_face = \<lparr>bbox = (10, 10, 110, 110), det_score = 9 / 10, embedding = [1, 0]\<rparr>"

definition stranger_face :: face where
  "stranger_face = \<lparr>bbox = (300, 40, 380, 140), det_score = 8 / 10, embedding = [0, - 1]\<rparr>"

definition demo_frame :: "string \<Rightarrow> frame_input" where
  "demo_frame stamp_now =
     \<lparr>handler = demo_handler, frame_shape = (480, 640, 3),
      faces = [known_face, stranger_face],
      tracked_detections =
        [\<lparr>tracker_id = 7, xyxy = (10, 10, 110, 110), stamp = stamp_now\<rparr>,
         \<lparr>tracker_id = 8, xyxy = (300, 40, 380, 140), stamp = stamp_now\<rparr>]\<rparr>"

definition bound_processor :: video_processor where
  "bound_processor =
     \<lparr>tracker_id_to_person = [7 \<mapsto> (''E001'', ''Asha'')], logged_unknown_ids = {}\<rparr>"

definition recorder :: "string list unknown_callback" where
  "recorder path enc received = (Inr True, received @ [path])"

section \<open>Properties of the matcher\<close>

lemma sqrt_25: "sqrt 25 = 5"
  by (rule real_sqrt_unique) simp_all

lemma sim_demo_1: "calculate_similarity [1, 0] [3, 4] = 6 / 10"
  by (simp add: calculate_similarity_def np_dot_def np_linalg_norm_def sqrt_25)

lemma sim_demo_2: "calculate_similarity [1, 0] [1, 0] = 1"
  by (simp add: calculate_similarity_def np_dot_def np_linalg_norm_def)

lemma recognize_loop_selected:
  "recognize_loop thr q rest (a, b, m) = (Some pid, nm, s) \<Longrightarrow>
     ((a, b, m) = (Some pid, nm, s)
        \<and> (\<forall>e \<in> set rest. \<not> (calculate_similarity q (encoding (snd e)) > s
                                 \<and> calculate_similarity q (encoding (snd e)) > thr)))
   \<or> (\<exists>pre d post. rest = pre @ (pid, d) # post
        \<and> nm = Some (name d)
        \<and> s = calculate_similarity q (encoding d)
        \<and> s > thr \<and> s > m
        \<and> (\<forall>e \<in> set pre. calculate_similarity q (encoding (snd e)) < s)
        \<and> (\<forall>e \<in> set post. calculate_similarity q (encoding (snd e)) \<le> s))"
proof (induction rest arbitrary: a b m)
  case Nil
  then show ?case by simp
next
  case (Cons e es)
  obtain k data where e: "e = (k, data)" by (cases e)
  let ?sim = "calculate_similarity q (encoding data)"
  show ?case
  proof (cases "?sim > m \<and> ?sim > thr")
    case True
    with Cons.prems e
    have run: "recognize_loop thr q es (Some k, Some (name data), ?sim) = (Some pid, nm, s)"
      by simp
    from Cons.IH [OF run] show ?thesis
    proof
      assume same: "(Some k, Some (name data), ?sim) = (Some pid, nm, s) \<and>
        (\<forall>e \<in> set es. \<not> (calculate_similarity q (encoding (snd e)) > s
                                 \<and> calculate_similarity q (encoding (snd e)) > thr))"
      with True have later: "\<forall>e \<in> set es. calculate_similarity q (encoding (snd e)) \<le> s"
        by force
      have "e # es = [] @ (pid, data) # es \<and> nm = Some (name data) \<and> s = ?sim
          \<and> s > thr \<and> s > m
          \<and> (\<forall>x \<in> set []. calculate_similarity q (encoding (snd x)) < s)
          \<and> (\<forall>x \<in> set es. calculate_similarity q (encoding (snd x)) \<le> s)"
        using same e True later by simp
      then show ?thesis by (intro disjI2 exI)
    next
      assume "\<exists>pre d post. es = pre @ (pid, d) # post
        \<and> nm = Some (name d)
        \<and> s = calculate_similarity q (encoding d)
        \<and> s > thr \<and> s > ?sim
        \<and> (\<forall>e \<in> set pre. calculate_similarity q (encoding (snd e)) < s)
        \<and> (\<forall>e \<in> set post. calculate_similarity q (encoding (snd e)) \<le> s)"
      then obtain pre d post where h: "es = pre @ (pid, d) # post"
        "nm = Some (name d)" "s = calculate_similarity q (encoding d)"
        "s > thr" "s > ?sim"
        "\<forall>e \<in> set pre. calculate_similarity q (encoding (snd e)) < s"
        "\<forall>e \<in> set post. calculate_similarity q (encoding (snd e)) \<le> s"
        by blast
      have split: "e # es = (e # pre) @ (pid, d) # post" using h(1) by simp
      have earlier: "\<forall>x \<in> set (e # pre). calculate_similarity q (encoding (snd x)) < s"
        using h(5,6) e by simp
      have "s > m" using True h(5) by linarith
      with split earlier h have "e # es = (e # pre) @ (pid, d) # post \<and> nm = Some (name d)
          \<and> s = calculate_similarity q (encoding d) \<and> s > thr \<and> s > m
          \<and> (\<forall>x \<in> set (e # pre). calculate_similarity q (encoding (snd x)) < s)
          \<and> (\<forall>x \<in> set post. calculate_similarity q (encoding (snd x)) \<le> s)"
        by simp
      then show ?thesis by (intro disjI2 exI)
    qed
  next
    case False
    with Cons.prems e
    have run: "recognize_loop thr q es (a, b, m) = (Some pid, nm, s)"
      by simp
    from Cons.IH [OF run] show ?thesis
    proof
      assume same: "(a, b, m) = (Some pid, nm, s) \<and>
        (\<forall>e \<in> set es. \<not> (calculate_similarity q (encoding (snd e)) > s
                                 \<and> calculate_similarity q (encoding (snd e)) > thr))"
      with False e show ?thesis by auto
    next
      assume "\<exists>pre d post. es = pre @ (pid, d) # post
        \<and> nm = Some (name d)
        \<and> s = calculate_similarity q (encoding d)
        \<and> s > thr \<and> s > m
        \<and> (\<forall>e \<in> set pre. calculate_similarity q (encoding (snd e)) < s)
        \<and> (\<forall>e \<in> set post. calculate_similarity q (encoding (snd e)) \<le> s)"
      then obtain pre d post where h: "es = pre @ (pid, d) # post"
        "nm = Some (name d)" "s = calculate_similarity q (encoding d)"
        "s > thr" "s > m"
        "\<forall>e \<in> set pre. calculate_similarity q (encoding (snd e)) < s"
        "\<forall>e \<in> set post. calculate_similarity q (encoding (snd e)) \<le> s"
        by blast
      have split: "e # es = (e # pre) @ (pid, d) # post" using h(1) by simp
      have "?sim < s" using False h(4,5) by linarith
      then have earlier: "\<forall>x \<in> set (e # pre). calculate_similarity q (encoding (snd x)) < s"
        using h(6) e by simp
      with split h have "e # es = (e # pre) @ (pid, d) # post \<and> nm = Some (name d)
          \<and> s = calculate_similarity q (encoding d) \<and> s > thr \<and> s > m
          \<and> (\<forall>x \<in> set (e # pre). calculate_similarity q (encoding (snd x)) < s)
          \<and> (\<forall>x \<in> set post. calculate_similarity q (encoding (snd x)) \<le> s)"
        by simp
      then show ?thesis by (intro disjI2 exI)
    qed
  qed
qed

lemma recognize_loop_none:
  "\<forall>e \<in> set rest. \<not> calculate_similarity q (encoding (snd e)) > thr \<Longrightarrow>
   recognize_loop thr q rest acc = acc"
proof (induction rest arbitrary: acc)
  case Nil
  then show ?case by simp
next
  case (Cons e es)
  obtain k data where e: "e = (k, data)" by (cases e)
  obtain a b m where acc: "acc = (a, b, m)" by (cases acc)
  from Cons.prems e have "\<not> calculate_similarity q (encoding data) > thr" by simp
  moreover from Cons.prems have "\<forall>e \<in> set es. \<not> calculate_similarity q (encoding (snd e)) > thr"
    by simp
  ultimately show ?case using Cons.IH e acc by simp
qed

text \<open>
  Claim C4. \<open>recognize_face\<close> on an empty registry returns \<open>(None, None, 0.0)\<close>.
  When it returns a person id, that id is the key of an entry of the registry whose
  similarity to the query is the returned score, strictly exceeds the threshold, is
  strictly greater than the similarity of every entry iterated before it (so the first
  entry wins an exact tie) and is at least the similarity of every entry iterated
  after it.
\<close>

theorem recognize_face_best_match:
  "recognize_face (fh\<lparr>registered_faces := []\<rparr>) q = (None, None, 0)
   \<and> (recognize_face fh q = (Some pid, nm, s) \<longrightarrow>
        (\<exists>pre d post. registered_faces fh = pre @ (pid, d) # post
           \<and> nm = Some (name d)
           \<and> s = calculate_similarity q (encoding d)
           \<and> s > similarity_threshold fh
           \<and> (\<forall>e \<in> set pre. calculate_similarity q (encoding (snd e)) < s)
           \<and> (\<forall>e \<in> set post. calculate_similarity q (encoding (snd e)) \<le> s)))"
proof
  show "recognize_face (fh\<lparr>registered_faces := []\<rparr>) q = (None, None, 0)"
    by (simp add: recognize_face_def)
next
  show "recognize_face fh q = (Some pid, nm, s) \<longrightarrow>
        (\<exists>pre d post. registered_faces fh = pre @ (pid, d) # post
           \<and> nm = Some (name d)
           \<and> s = calculate_similarity q (encoding d)
           \<and> s > similarity_threshold fh
           \<and> (\<forall>e \<in> set pre. calculate_similarity q (encoding (snd e)) < s)
           \<and> (\<forall>e \<in> set post. calculate_similarity q (encoding (snd e)) \<le> s))"
  proof
    assume r: "recognize_face fh q = (Some pid, nm, s)"
    then have ne: "registered_faces fh \<noteq> []"
      by (auto simp: recognize_face_def)
    with r have "recognize_loop (similarity_threshold fh) q (registered_faces fh) (None, None, 0)
        = (Some pid, nm, s)"
      by (simp add: recognize_face_def)
    from recognize_loop_selected [OF this] show "\<exists>pre d post. registered_faces fh = pre @ (pid, d) # post
           \<and> nm = Some (name d)
           \<and> s = calculate_similarity q (encoding d)
           \<and> s > similarity_threshold fh
           \<and> (\<forall>e \<in> set pre. calculate_similarity q (encoding (snd e)) < s)
           \<and> (\<forall>e \<in> set post. calculate_similarity q (encoding (snd e)) \<le> s)"
      by auto
  qed
qed

text \<open>
  Claim C10. For a non-empty registry in which no entry's similarity to the query
  strictly exceeds the threshold, \<open>recognize_face\<close> returns \<open>(None, None, 0.0)\<close>:
  the score is exactly \<open>0.0\<close>, whatever the best similarity below the threshold was.
\<close>

theorem recognize_face_below_threshold:
  "registered_faces fh \<noteq> [] \<Longrightarrow>
   \<forall>e \<in> set (registered_faces fh).
      \<not> calculate_similarity q (encoding (snd e)) > similarity_threshold fh \<Longrightarrow>
   recognize_face fh q = (None, None, 0)"
  by (simp add: recognize_face_def recognize_loop_none)

text \<open>
  Witness for C4: the second and third entries tie at similarity 1; the second, seen
  first, is returned.
\<close>

theorem recognize_face_best_match_witness:
  "recognize_face demo_handler [1, 0] = (Some ''E002'', Some ''Bala'', 1)
   \<and> (\<exists>pre d post. registered_faces demo_handler = pre @ (''E002'', d) # post
           \<and> Some ''Bala'' = Some (name d)
           \<and> 1 = calculate_similarity [1, 0] (encoding d)
           \<and> 1 > similarity_threshold demo_handler
           \<and> (\<forall>e \<in> set pre. calculate_similarity [1, 0] (encoding (snd e)) < 1)
           \<and> (\<forall>e \<in> set post. calculate_similarity [1, 0] (encoding (snd e)) \<le> 1))"
proof -
  have run: "recognize_face demo_handler [1, 0] = (Some ''E002'', Some ''Bala'', 1)"
    by (simp add: recognize_face_def demo_handler_def demo_registry_def sim_demo_1 sim_demo_2)
  with recognize_face_best_match [of demo_handler "[1, 0]" "''E002''" "Some ''Bala''" 1]
  show ?thesis by blast
qed

lemma sim_demo_4: "calculate_similarity [3, 4] [3, 4] = 1"
  by (simp add: calculate_similarity_def np_dot_def np_linalg_norm_def sqrt_25)

lemma sim_demo_5: "calculate_similarity [3, 4] [1, 0] = 6 / 10"
  by (simp add: calculate_similarity_def np_dot_def np_linalg_norm_def sqrt_25)

text \<open>
  Witness for C10: with the threshold at 1 the best similarity is 1, which does not
  strictly exceed it, and the reported score is 0.
\<close>

theorem recognize_face_below_threshold_witness:
  "registered_faces (demo_handler\<lparr>similarity_threshold := 1\<rparr>) \<noteq> []
   \<and> calculate_similarity [3, 4] (encoding (snd (hd demo_registry))) = 1
   \<and> recognize_face (demo_handler\<lparr>similarity_threshold := 1\<rparr>) [3, 4] = (None, None, 0)"
proof -
  let ?fh = "demo_handler\<lparr>similarity_threshold := 1\<rparr>"
  have ne: "registered_faces ?fh \<noteq> []"
    by (simp add: demo_handler_def demo_registry_def)
  have low: "\<forall>e \<in> set (registered_faces ?fh).
         \<not> calculate_similarity [3, 4] (encoding (snd e)) > similarity_threshold ?fh"
    by (simp add: demo_handler_def demo_registry_def sim_demo_4 sim_demo_5)
  have best: "calculate_similarity [3, 4] (encoding (snd (hd demo_registry))) = 1"
    by (simp add: demo_registry_def sim_demo_4)
  from recognize_face_below_threshold [OF ne low] ne best show ?thesis by simp
qed

section \<open>Properties of the face store\<close>

text \<open>
  Claim C9, as amended. \<open>remove_face_encoding\<close> deletes the entry from the registry in
  memory if it is present and then writes the store. It returns true exactly when the
  person id was present and the write succeeded: it returns false when the id was absent
  (nothing is written, nothing changes) and also when the id was present and removed but
  the write failed.
\<close>

theorem remove_face_encoding_result:
  "fst (remove_face_encoding io person_id fh)
     = (person_id \<in> fst ` set (registered_faces fh) \<and> io = SaveOk)
   \<and> registered_faces (snd (remove_face_encoding io person_id fh))
       = AList.delete person_id (registered_faces fh)
   \<and> person_id \<notin> fst ` set (registered_faces (snd (remove_face_encoding io person_id fh)))
   \<and> (person_id \<in> fst ` set (registered_faces fh) \<and> io = SaveOk \<longrightarrow>
        face_db_file (snd (remove_face_encoding io person_id fh))
          = Pickled (AList.delete person_id (registered_faces fh)))
   \<and> (person_id \<notin> fst ` set (registered_faces fh) \<longrightarrow>
        snd (remove_face_encoding io person_id fh) = fh)"
proof (cases "person_id \<in> fst ` set (registered_faces fh)")
  case True
  then show ?thesis
    by (cases io) (simp_all add: remove_face_encoding_def save_face_encodings_def delete_notin_dom)
next
  case False
  then have "AList.delete person_id (registered_faces fh) = registered_faces fh"
    by simp
  with False show ?thesis
    by (simp add: remove_face_encoding_def)
qed

text \<open>
  Claim C9 as stated fails: with the id present and \<open>open\<close> failing, the entry is
  removed from memory and the call returns false.
\<close>

theorem remove_face_encoding_counterexample:
  "\<not> (fst (remove_face_encoding OpenFails ''E001'' demo_handler)
        \<longleftrightarrow> ''E001'' \<in> fst ` set (registered_faces demo_handler))"
  by (simp add: remove_face_encoding_def save_face_encodings_def demo_handler_def demo_registry_def)

text \<open>
  Witness for C9: removing a present id with a working disk, and removing an absent id.
\<close>

theorem remove_face_encoding_result_witness:
  "''E001'' \<in> fst ` set (registered_faces demo_handler)
   \<and> fst (remove_face_encoding SaveOk ''E001'' demo_handler)
   \<and> map fst (registered_faces (snd (remove_face_encoding SaveOk ''E001'' demo_handler)))
        = [''E002'', ''E003'']
   \<and> face_db_file (snd (remove_face_encoding SaveOk ''E001'' demo_handler))
        = Pickled (AList.delete ''E001'' (registered_faces demo_handler))
   \<and> ''E009'' \<notin> fst ` set (registered_faces demo_handler)
   \<and> snd (remove_face_encoding SaveOk ''E009'' demo_handler) = demo_handler"
proof -
  have p: "''E001'' \<in> fst ` set (registered_faces demo_handler)"
    by (simp add: demo_handler_def demo_registry_def)
  have a: "''E009'' \<notin> fst ` set (registered_faces demo_handler)"
    by (simp add: demo_handler_def demo_registry_def)
  have k: "map fst (AList.delete ''E001'' (registered_faces demo_handler)) = [''E002'', ''E003'']"
    by (simp add: demo_handler_def demo_registry_def AList.delete_eq)
  from remove_face_encoding_result [of SaveOk "''E001''" demo_handler]
       remove_face_encoding_result [of SaveOk "''E009''" demo_handler] p a k
  show ?thesis by simp
qed

section \<open>Properties of the attendance sync\<close>

lemma no_row_find:
  "filter (\<lambda>r. att_person_id r = person_id \<and> att_date r = day) (attendance d) = []
   \<longleftrightarrow> select_attendance person_id day d = None"
  by (auto simp: select_attendance_def find_None_iff filter_empty_conv)

text \<open>
  Claim C2. For a person of the \<open>persons\<close> table with no attendance row for today,
  and a database that answers every call, \<open>sync_daily_attendance\<close> returns
  \<open>LOGIN: <now>\<close> and appends one row for (person, today) with arrival and leaving
  time both equal to the current time and status \<open>Present\<close>; afterwards that row is the
  only row of the person for today.
\<close>

theorem first_sync_inserts_login:
  assumes "\<forall>op. fl op = None"
    and "persons d person_id = Some shift_end"
    and "filter (\<lambda>r. att_person_id r = person_id \<and> att_date r = today ck) (attendance d) = []"
  shows "\<exists>row d'. sync_daily_attendance fl ck person_id d
                     = (Inr (''LOGIN: '' @ current_time ck), d')
           \<and> attendance d' = attendance d @ [row]
           \<and> att_person_id row = person_id \<and> att_date row = today ck
           \<and> arrival_time row = Some (current_time ck)
           \<and> leaving_time row = Some (current_time ck)
           \<and> status row = Some ''Present''
           \<and> filter (\<lambda>r. att_person_id r = person_id \<and> att_date r = today ck) (attendance d')
               = [row]
           \<and> persons d' = persons d \<and> face_logs d' = face_logs d
           \<and> unknown_faces d' = unknown_faces d"
proof -
  let ?row = "\<lparr>att_id = attendance_auto_increment d, att_person_id = person_id,
                att_date = today ck, arrival_time = Some (current_time ck),
                leaving_time = Some (current_time ck), status = Some ''Present''\<rparr>"
  let ?d' = "d\<lparr>attendance := attendance d @ [?row],
               attendance_auto_increment := Suc (attendance_auto_increment d)\<rparr>"
  from assms(3) have none: "select_attendance person_id (today ck) d = None"
    by (simp add: no_row_find)
  with assms(2) have ins:
    "insert_attendance person_id (today ck) (current_time ck) (current_time ck) d = Inr ?d'"
    by (simp add: insert_attendance_def)
  from assms(1,2) none ins
  have run: "sync_daily_attendance fl ck person_id d = (Inr (''LOGIN: '' @ current_time ck), ?d')"
    by (simp add: sync_daily_attendance_def)
  have one: "filter (\<lambda>r. att_person_id r = person_id \<and> att_date r = today ck) (attendance ?d')
               = [?row]"
    using assms(3) by simp
  from run one show ?thesis
    by (intro exI [of _ ?row] exI [of _ ?d']) simp
qed

lemma digit_not_special:
  "py_isdigit c \<Longrightarrow> \<not> py_isspace c \<and> c \<noteq> CHR ''-'' \<and> c \<noteq> CHR ''+'' \<and> c \<noteq> CHR '':''"
  by (auto simp: py_isdigit_def py_isspace_def)

lemma py_digits_decimal:
  "\<forall>c \<in> set ds. py_isdigit c \<Longrightarrow> ds \<noteq> [] \<Longrightarrow>
   py_digits acc prev ds = Some (foldl (\<lambda>a c. 10 * a + (int (of_char c) - 48)) acc ds)"
proof (induction ds arbitrary: acc prev)
  case Nil
  then show ?case by simp
next
  case (Cons c cs)
  let ?f = "\<lambda>a c. 10 * a + (int (of_char c) - 48)"
  from Cons.prems have c: "py_isdigit c" and cs: "\<forall>x \<in> set cs. py_isdigit x" by simp_all
  from c have step: "py_digits acc prev (c # cs) = py_digits (?f acc c) True cs" by simp
  show ?case
  proof (cases cs)
    case Nil
    with step show ?thesis by simp
  next
    case (Cons x xs)
    then have "cs \<noteq> []" by simp
    from Cons.IH [OF cs this, of "?f acc c" True] step show ?thesis by simp
  qed
qed

lemma py_strip_digits:
  assumes "\<forall>c \<in> set ds. py_isdigit c" and "ds \<noteq> []"
  shows "py_strip ds = ds"
proof -
  from assms have h: "\<not> py_isspace (hd ds)" and l: "\<not> py_isspace (last ds)"
    by (simp_all add: digit_not_special)
  from assms(2) h have a: "dropWhile py_isspace ds = ds" by (cases ds) simp_all
  from assms(2) l have "dropWhile py_isspace (rev ds) = rev ds"
    by (cases "rev ds") (simp_all add: last_rev [symmetric] hd_rev)
  with a show ?thesis by (simp add: py_strip_def)
qed

lemma py_int_digits:
  assumes "\<forall>c \<in> set ds. py_isdigit c" and "ds \<noteq> []"
  shows "py_int ds = Some (decimal ds)"
proof -
  from assms obtain c cs where ds: "ds = c # cs" by (cases ds) auto
  with assms(1) have c: "c \<noteq> CHR ''-''" "c \<noteq> CHR ''+''" by (simp_all add: digit_not_special)
  have strip: "py_strip ds = c # cs" using py_strip_digits [OF assms] ds by simp
  have digits: "py_digits 0 False (c # cs) = Some (decimal ds)"
    using py_digits_decimal [OF assms, of 0 False] ds by (simp add: decimal_def)
  show ?thesis unfolding py_int_def strip using c digits by simp
qed

lemma shift_end_hour_digits:
  assumes "\<forall>c \<in> set ds. py_isdigit c" and "ds \<noteq> []"
  shows "user_shift_end_hour (Some (ds @ CHR '':'' # rest)) = decimal ds"
proof -
  from assms(1) have "\<And>x. x \<in> set ds \<Longrightarrow> x \<noteq> CHR '':''" by (auto dest: digit_not_special)
  then have "split_colon_first (ds @ CHR '':'' # rest) = ds"
    by (simp add: split_colon_first_def)
  with py_int_digits [OF assms] show ?thesis by (simp add: user_shift_end_hour_def)
qed

lemma shift_end_hour_examples:
  "user_shift_end_hour (Some (CHR 0x1C # ''9:00'')) = 18"
  "user_shift_end_hour (Some (''9'' @ [CHR 0x1F] @ '':00'')) = 18"
  "user_shift_end_hour (Some (CHR 0xA0 # ''9:00'')) = 9"
  "user_shift_end_hour (Some '' 0_9 :30'') = 9"
  "user_shift_end_hour (Some ''6pm'') = 18"
  "user_shift_end_hour None = 18"
  by (simp_all add: user_shift_end_hour_def split_colon_first_def py_int_def py_strip_def
      py_isspace_def py_isdigit_def)

text \<open>
  Claim C3. For a person of the \<open>persons\<close> table who has an attendance row for today,
  and a database that answers every call, \<open>sync_daily_attendance\<close> sets the leaving time
  of that row to the current time and changes no other column and no other row; it returns
  \<open>LOGOUT UPDATE: <now>\<close> when the current hour is at least the person's shift-end hour
  and \<open>Shift Ongoing (Ends <shift end>)\<close> otherwise. The shift-end hour is the one the
  person's \<open>shift_end\<close> configures: for a \<open>shift_end\<close> that begins with decimal digits
  followed by a colon, as \<open>HH:MM\<close> does, it is the number those digits denote.
\<close>

theorem later_sync_updates_leaving_time:
  assumes "\<forall>op. fl op = None"
    and "persons d person_id = Some shift_end"
    and "filter (\<lambda>r. att_person_id r = person_id \<and> att_date r = today ck) (attendance d) \<noteq> []"
  shows "fst (sync_daily_attendance fl ck person_id d)
           = Inr (if hour ck \<ge> user_shift_end_hour shift_end
                  then ''LOGOUT UPDATE: '' @ current_time ck
                  else ''Shift Ongoing (Ends '' @ str_opt shift_end @ '')'')
         \<and> (shift_end = Some (ds @ CHR '':'' # rest) \<and> ds \<noteq> [] \<and> (\<forall>c \<in> set ds. py_isdigit c)
              \<longrightarrow> fst (sync_daily_attendance fl ck person_id d)
                    = Inr (if hour ck \<ge> decimal ds
                           then ''LOGOUT UPDATE: '' @ current_time ck
                           else ''Shift Ongoing (Ends '' @ ds @ '':'' @ rest @ '')''))
         \<and> attendance (snd (sync_daily_attendance fl ck person_id d))
             = map (\<lambda>r. if att_person_id r = person_id \<and> att_date r = today ck
                         then r\<lparr>leaving_time := Some (current_time ck)\<rparr> else r)
                   (attendance d)
         \<and> map att_id (attendance (snd (sync_daily_attendance fl ck person_id d)))
             = map att_id (attendance d)
         \<and> map att_person_id (attendance (snd (sync_daily_attendance fl ck person_id d)))
             = map att_person_id (attendance d)
         \<and> map att_date (attendance (snd (sync_daily_attendance fl ck person_id d)))
             = map att_date (attendance d)
         \<and> map arrival_time (attendance (snd (sync_daily_attendance fl ck person_id d)))
             = map arrival_time (attendance d)
         \<and> map status (attendance (snd (sync_daily_attendance fl ck person_id d)))
             = map status (attendance d)
         \<and> persons (snd (sync_daily_attendance fl ck person_id d)) = persons d
         \<and> face_logs (snd (sync_daily_attendance fl ck person_id d)) = face_logs d
         \<and> unknown_faces (snd (sync_daily_attendance fl ck person_id d)) = unknown_faces d"
proof -
  from assms(3) obtain r where some: "select_attendance person_id (today ck) d = Some r"
    using no_row_find [of person_id "today ck" d] by auto
  from assms(1,2) some
  have run: "sync_daily_attendance fl ck person_id d
      = (if hour ck \<ge> user_shift_end_hour shift_end
         then Inr (''LOGOUT UPDATE: '' @ current_time ck)
         else Inr (''Shift Ongoing (Ends '' @ str_opt shift_end @ '')''),
         update_leaving_time (current_time ck) person_id (today ck) d)"
    by (simp add: sync_daily_attendance_def)
  have configured: "shift_end = Some (ds @ CHR '':'' # rest) \<and> ds \<noteq> [] \<and> (\<forall>c \<in> set ds. py_isdigit c)
      \<longrightarrow> fst (sync_daily_attendance fl ck person_id d)
            = Inr (if hour ck \<ge> decimal ds
                   then ''LOGOUT UPDATE: '' @ current_time ck
                   else ''Shift Ongoing (Ends '' @ ds @ '':'' @ rest @ '')'')"
  proof
    assume h: "shift_end = Some (ds @ CHR '':'' # rest) \<and> ds \<noteq> [] \<and> (\<forall>c \<in> set ds. py_isdigit c)"
    then have "user_shift_end_hour shift_end = decimal ds"
      using shift_end_hour_digits [of ds rest] by simp
    with h show "fst (sync_daily_attendance fl ck person_id d)
            = Inr (if hour ck \<ge> decimal ds
                   then ''LOGOUT UPDATE: '' @ current_time ck
                   else ''Shift Ongoing (Ends '' @ ds @ '':'' @ rest @ '')'')"
      unfolding run by (simp add: str_opt_def)
  qed
  have rest_ok: "fst (sync_daily_attendance fl ck person_id d)
           = Inr (if hour ck \<ge> user_shift_end_hour shift_end
                  then ''LOGOUT UPDATE: '' @ current_time ck
                  else ''Shift Ongoing (Ends '' @ str_opt shift_end @ '')'')
         \<and> attendance (snd (sync_daily_attendance fl ck person_id d))
             = map (\<lambda>r. if att_person_id r = person_id \<and> att_date r = today ck
                         then r\<lparr>leaving_time := Some (current_time ck)\<rparr> else r)
                   (attendance d)
         \<and> map att_id (attendance (snd (sync_daily_attendance fl ck person_id d)))
             = map att_id (attendance d)
         \<and> map att_person_id (attendance (snd (sync_daily_attendance fl ck person_id d)))
             = map att_person_id (attendance d)
         \<and> map att_date (attendance (snd (sync_daily_attendance fl ck person_id d)))
             = map att_date (attendance d)
         \<and> map arrival_time (attendance (snd (sync_daily_attendance fl ck person_id d)))
             = map arrival_time (attendance d)
         \<and> map status (attendance (snd (sync_daily_attendance fl ck person_id d)))
             = map status (attendance d)
         \<and> persons (snd (sync_daily_attendance fl ck person_id d)) = persons d
         \<and> face_logs (snd (sync_daily_attendance fl ck person_id d)) = face_logs d
         \<and> unknown_faces (snd (sync_daily_attendance fl ck person_id d)) = unknown_faces d"
    unfolding run by (simp add: update_leaving_time_def o_def cong: if_cong)
  from rest_ok configured show ?thesis by blast
qed


text \<open>
  Witness for C2: the first sync of E001 at 17:00.
\<close>

theorem first_sync_inserts_login_witness:
  "persons demo_db ''E001'' = Some (Some ''18:00'')
   \<and> attendance demo_db = []
   \<and> fst (sync_daily_attendance no_faults demo_clock ''E001'' demo_db) = Inr ''LOGIN: 17:00:00''
   \<and> map arrival_time (attendance (snd (sync_daily_attendance no_faults demo_clock ''E001'' demo_db)))
        = [Some ''17:00:00'']"
proof -
  have h1: "\<forall>op. no_faults op = None" by (simp add: no_faults_def)
  have h2: "persons demo_db ''E001'' = Some (Some ''18:00'')" by (simp add: demo_db_def)
  have h3: "filter (\<lambda>r. att_person_id r = ''E001'' \<and> att_date r = today demo_clock)
              (attendance demo_db) = []"
    by (simp add: demo_db_def)
  from first_sync_inserts_login [OF h1 h2 h3] obtain row d' where
    r: "sync_daily_attendance no_faults demo_clock ''E001'' demo_db
          = (Inr (''LOGIN: '' @ current_time demo_clock), d')"
    and a: "attendance d' = attendance demo_db @ [row]"
    and t: "arrival_time row = Some (current_time demo_clock)"
    by blast
  from r a t h2 show ?thesis by (simp add: demo_db_def demo_clock_def)
qed

lemma decimal_examples: "decimal ''09'' = 9" "decimal ''20'' = 20" "decimal ''18'' = 18"
  by (simp_all add: decimal_def)

text \<open>
  Witness for C3: E001 with shift end 18:00 seen again at 17:00 and at 18:30; with shift
  end 09:30 seen at 17:00; E002 with shift end 20:00 seen at 18:30.
\<close>

theorem later_sync_updates_leaving_time_witness:
  "fst (sync_daily_attendance no_faults demo_clock ''E001'' demo_db_present)
     = Inr ''Shift Ongoing (Ends 18:00)''
   \<and> fst (sync_daily_attendance no_faults evening_clock ''E001'' demo_db_present)
     = Inr ''LOGOUT UPDATE: 18:30:00''
   \<and> fst (sync_daily_attendance no_faults demo_clock ''E001'' shifts_db)
     = Inr ''LOGOUT UPDATE: 17:00:00''
   \<and> fst (sync_daily_attendance no_faults evening_clock ''E002'' shifts_db)
     = Inr ''Shift Ongoing (Ends 20:00)''
   \<and> map leaving_time
        (attendance (snd (sync_daily_attendance no_faults evening_clock ''E002'' shifts_db)))
     = [Some ''09:02:11'', Some ''18:30:00'']
   \<and> map arrival_time
        (attendance (snd (sync_daily_attendance no_faults evening_clock ''E002'' shifts_db)))
     = [Some ''09:02:11'', Some ''09:30:00'']"
proof -
  have h1: "\<forall>op. no_faults op = None" by (simp add: no_faults_def)
  have p1: "persons demo_db_present ''E001'' = Some (Some (''18'' @ CHR '':'' # ''00''))"
    by (simp add: demo_db_present_def demo_db_def)
  have p2: "persons shifts_db ''E001'' = Some (Some (''09'' @ CHR '':'' # ''30''))"
    by (simp add: shifts_db_def)
  have p3: "persons shifts_db ''E002'' = Some (Some (''20'' @ CHR '':'' # ''00''))"
    by (simp add: shifts_db_def)
  have r1: "filter (\<lambda>r. att_person_id r = ''E001'' \<and> att_date r = today demo_clock)
              (attendance demo_db_present) \<noteq> []"
    by (simp add: demo_db_present_def demo_clock_def)
  have r2: "filter (\<lambda>r. att_person_id r = ''E001'' \<and> att_date r = today evening_clock)
              (attendance demo_db_present) \<noteq> []"
    by (simp add: demo_db_present_def evening_clock_def)
  have r3: "filter (\<lambda>r. att_person_id r = ''E001'' \<and> att_date r = today demo_clock)
              (attendance shifts_db) \<noteq> []"
    by (simp add: shifts_db_def demo_db_present_def demo_clock_def)
  have r4: "filter (\<lambda>r. att_person_id r = ''E002'' \<and> att_date r = today evening_clock)
              (attendance shifts_db) \<noteq> []"
    by (simp add: shifts_db_def demo_db_present_def evening_clock_def)
  have d18: "''18'' \<noteq> [] \<and> (\<forall>c \<in> set ''18''. py_isdigit c)" by (simp add: py_isdigit_def)
  have d09: "''09'' \<noteq> [] \<and> (\<forall>c \<in> set ''09''. py_isdigit c)" by (simp add: py_isdigit_def)
  have d20: "''20'' \<noteq> [] \<and> (\<forall>c \<in> set ''20''. py_isdigit c)" by (simp add: py_isdigit_def)
  note a = later_sync_updates_leaving_time [OF h1 p1 r1, of "''18''" "''00''"]
  note b = later_sync_updates_leaving_time [OF h1 p1 r2, of "''18''" "''00''"]
  note c = later_sync_updates_leaving_time [OF h1 p2 r3, of "''09''" "''30''"]
  note e = later_sync_updates_leaving_time [OF h1 p3 r4, of "''20''" "''00''"]
  from a [THEN conjunct2, THEN conjunct1] d18 have w1: "fst (sync_daily_attendance no_faults demo_clock ''E001'' demo_db_present)
     = Inr ''Shift Ongoing (Ends 18:00)''"
    by (simp add: decimal_examples demo_clock_def)
  from b [THEN conjunct2, THEN conjunct1] d18 have w2: "fst (sync_daily_attendance no_faults evening_clock ''E001'' demo_db_present)
     = Inr ''LOGOUT UPDATE: 18:30:00''"
    by (simp add: decimal_examples evening_clock_def)
  from c [THEN conjunct2, THEN conjunct1] d09 have w3: "fst (sync_daily_attendance no_faults demo_clock ''E001'' shifts_db)
     = Inr ''LOGOUT UPDATE: 17:00:00''"
    by (simp add: decimal_examples demo_clock_def)
  from e [THEN conjunct2, THEN conjunct1] d20 have w4: "fst (sync_daily_attendance no_faults evening_clock ''E002'' shifts_db)
     = Inr ''Shift Ongoing (Ends 20:00)''"
    by (simp add: decimal_examples evening_clock_def)
  from e have w5: "map leaving_time
        (attendance (snd (sync_daily_attendance no_faults evening_clock ''E002'' shifts_db)))
     = [Some ''09:02:11'', Some ''18:30:00'']"
    by (simp add: shifts_db_def demo_db_present_def evening_clock_def)
  from e have w6: "map arrival_time
        (attendance (snd (sync_daily_attendance no_faults evening_clock ''E002'' shifts_db)))
     = [Some ''09:02:11'', Some ''09:30:00'']"
    by (simp add: shifts_db_def demo_db_present_def)
  from w1 w2 w3 w4 w5 w6 show ?thesis by blast
qed

text \<open>
  Claim C8 at a failing input. The database server cannot be reached: the exception of
  \<open>get_connection\<close>, raised before the \<open>try\<close> of \<open>sync_daily_attendance\<close>, leaves
  the sync, \<open>process_recognized_face\<close> and \<open>process_frame\<close>.
\<close>

theorem sync_connect_fault_raises:
  "sync_daily_attendance server_down demo_clock ''E001'' demo_db_present
     = (Inl (DatabaseError ''2003: Can't connect to MySQL server''), demo_db_present)
   \<and> fst (process_recognized_face (demo_env\<lparr>sync_faults := server_down\<rparr>) ''E001'' ''Asha''
            (warm_tracker, demo_db_present))
     = Inl (DatabaseError ''2003: Can't connect to MySQL server'')
   \<and> fst (process_frame
            (Some (\<lambda>person_id person_name st.
               case process_recognized_face (demo_env\<lparr>sync_faults := server_down\<rparr>)
                      person_id person_name st of
                 (out, spoken, st1) \<Rightarrow> (out, st1)))
            None
            \<lparr>handler = demo_handler, frame_shape = (480, 640, 3), faces = [],
             tracked_detections = [\<lparr>tracker_id = 1, xyxy = (10, 10, 110, 110), stamp = ''s''\<rparr>]\<rparr>
            (init_video_processor\<lparr>tracker_id_to_person := [1 \<mapsto> (''E001'', ''Asha'')]\<rparr>,
             (warm_tracker, demo_db_present)))
     = Inl (DatabaseError ''2003: Can't connect to MySQL server'')"
  by (simp add: sync_daily_attendance_def server_down_def process_recognized_face_def
      demo_env_def warm_tracker_def process_frame_def process_detection_def mark_attendance_def
      init_video_processor_def)

section \<open>Properties of the cooldowns\<close>







lemma alert_times_Cons:
  "alert_times ((ts, a) # outs) = (if a then ts # alert_times outs else alert_times outs)"
  by (simp add: alert_times_def)

lemma unknown_step_timer:
  assumes "process_unknown_person env path enc (tr, d) = (out, alert, (tr1, d1))"
  shows "alert \<Longrightarrow> last_unknown_alert_time tr1 = current_ts env
                    \<and> current_ts env - last_unknown_alert_time tr > 15"
    and "\<not> alert \<Longrightarrow> last_unknown_alert_time tr1 = last_unknown_alert_time tr"
  using assms
  by (auto simp: process_unknown_person_def split: if_splits sum.splits prod.splits)

lemma run_unknown_spaced:
  "run_unknown calls (tr, d) = (outs, st') \<Longrightarrow>
     sorted_wrt (\<lambda>a b. b - a > 15) (alert_times outs)
     \<and> (\<forall>t \<in> set (alert_times outs). t - last_unknown_alert_time tr > 15)"
proof (induction calls arbitrary: tr d outs)
  case Nil
  then show ?case by (simp add: alert_times_def)
next
  case (Cons call calls)
  obtain env path enc where call: "call = (env, path, enc)" by (cases call)
  obtain out alert tr1 d1 where
    step: "process_unknown_person env path enc (tr, d) = (out, alert, (tr1, d1))"
    by (metis prod.exhaust)
  obtain outs1 where rest: "run_unknown calls (tr1, d1) = (outs1, st')"
    and outs: "outs = (current_ts env, alert) # outs1"
    using Cons.prems call step by (auto split: prod.splits)
  note IH = Cons.IH [OF rest]
  show ?case
  proof (cases alert)
    case True
    with unknown_step_timer(1) [OF step]
    have now: "last_unknown_alert_time tr1 = current_ts env"
      and gap: "current_ts env - last_unknown_alert_time tr > 15" by simp_all
    from IH now have later: "\<forall>t \<in> set (alert_times outs1). t - current_ts env > 15" by simp
    have times: "alert_times outs = current_ts env # alert_times outs1"
      using True outs by (simp add: alert_times_Cons)
    have "\<forall>t \<in> set (alert_times outs). t - last_unknown_alert_time tr > 15"
    proof
      fix t assume "t \<in> set (alert_times outs)"
      with times have "t = current_ts env \<or> t \<in> set (alert_times outs1)" by simp
      then show "t - last_unknown_alert_time tr > 15"
      proof
        assume "t = current_ts env" with gap show ?thesis by simp
      next
        assume "t \<in> set (alert_times outs1)"
        with later have "t - current_ts env > 15" by simp
        with gap show ?thesis by linarith
      qed
    qed
    with IH later times show ?thesis by simp
  next
    case False
    with unknown_step_timer(2) [OF step]
    have same: "last_unknown_alert_time tr1 = last_unknown_alert_time tr" by simp
    have times: "alert_times outs = alert_times outs1"
      using False outs by (simp add: alert_times_Cons)
    with IH same show ?thesis by simp
  qed
qed

text \<open>
  Claim C7. In every session of calls of \<open>process_unknown_person\<close>, whatever snapshots,
  embeddings, clock readings and database faults they carry, any two calls that start the
  alert are more than 15 seconds apart: the one timestamp \<open>last_unknown_alert_time\<close> is
  shared by all tracks.
\<close>

theorem unknown_alert_cooldown:
  "run_unknown calls (tr, d) = (outs, st') \<Longrightarrow> i < j \<Longrightarrow> j < length (alert_times outs) \<Longrightarrow>
     alert_times outs ! j - alert_times outs ! i > 15"
proof -
  assume r: "run_unknown calls (tr, d) = (outs, st')" and ij: "i < j" "j < length (alert_times outs)"
  from run_unknown_spaced [OF r] have "sorted_wrt (\<lambda>a b. b - a > 15) (alert_times outs)" by simp
  with ij show ?thesis by (simp add: sorted_wrt_iff_nth_less)
qed




lemma unknown_calls_run:
  "fst (run_unknown unknown_calls (init_tracker, demo_db))
     = [(1000, True), (1005, False), (1016, True)]"
  by (simp add: unknown_calls_def env_at_def init_tracker_def demo_db_def no_faults_def
      process_unknown_person_def log_unknown_person_def)

text \<open>
  Witness for C7: three unknown tracks at 1000 s, 1005 s and 1016 s; the first and the
  third start the alert.
\<close>

theorem unknown_alert_cooldown_witness:
  "alert_times (fst (run_unknown unknown_calls (init_tracker, demo_db))) = [1000, 1016]
   \<and> alert_times (fst (run_unknown unknown_calls (init_tracker, demo_db))) ! 1
       - alert_times (fst (run_unknown unknown_calls (init_tracker, demo_db))) ! 0 > 15"
proof -
  let ?outs = "fst (run_unknown unknown_calls (init_tracker, demo_db))"
  let ?st = "snd (run_unknown unknown_calls (init_tracker, demo_db))"
  have times: "alert_times ?outs = [1000, 1016]"
    by (simp add: unknown_calls_run alert_times_def)
  have run: "run_unknown unknown_calls (init_tracker, demo_db) = (?outs, ?st)" by simp
  have j: "1 < length (alert_times ?outs)" using times by simp
  from unknown_alert_cooldown [OF run _ j, of 0] times show ?thesis by simp
qed

section \<open>Properties of the frame pipeline\<close>

lemma snap_step_refl: "snap_step tid l n ok l n"
  by (simp add: snap_step_def)

lemma snap_step_trans:
  "snap_step tid l n True l1 n1 \<Longrightarrow> snap_step tid l1 n1 ok l2 n2 \<Longrightarrow> snap_step tid l n ok l2 n2"
  unfolding snap_step_def by auto

lemma snap_count_append: "snap_count tid (a @ b) = snap_count tid a + snap_count tid b"
  by (simp add: snap_count_def)

lemma mark_attendance_vp:
  "mark_attendance cb cached p n ls = (r, ls') \<Longrightarrow> vp ls' = vp ls \<and> snapshots ls' = snapshots ls"
  by (auto simp: mark_attendance_def Let_def split: option.splits prod.splits sum.splits)

lemma unknown_track_cache:
  "unknown_track cb fr t bf ls = (r, ls') \<Longrightarrow>
     tracker_id_to_person (vp ls') = tracker_id_to_person (vp ls)"
  by (auto simp: unknown_track_def Let_def split: option.splits prod.splits sum.splits if_splits)

lemma unknown_track_snap:
  "unknown_track cb fr t bf ls = (r, ls') \<Longrightarrow>
     snap_step tid (logged_unknown_ids (vp ls)) (snap_count tid (snapshots ls)) (r = None)
       (logged_unknown_ids (vp ls')) (snap_count tid (snapshots ls'))"
  by (auto simp: unknown_track_def Let_def snap_step_def snap_count_def
           split: option.splits prod.splits sum.splits if_splits)

lemma process_detection_binding:
  assumes "process_detection mark unknown fr t ls = (r, ls')"
    and "tracker_id_to_person (vp ls) k = Some b"
  shows "tracker_id_to_person (vp ls') k = Some b"
proof (cases "tracker_id_to_person (vp ls) (tracker_id t)")
  case (Some pn)
  then obtain p n where "pn = (p, n)" by (cases pn)
  with Some assms(1) have "mark_attendance mark True p n ls = (r, ls')"
    by (simp add: process_detection_def)
  from mark_attendance_vp [OF this] assms(2) show ?thesis by simp
next
  case None
  with assms(2) have ne: "tracker_id t \<noteq> k" by auto
  show ?thesis
  proof (cases "fst (best_face_loop (xyxy t) (faces fr) (None, 0))")
    case N: None
    with None assms show ?thesis by (auto simp: process_detection_def)
  next
    case (Some bf)
    obtain i nm s where rec: "recognize_face (handler fr) (embedding bf) = (i, nm, s)"
      by (metis prod.exhaust)
    show ?thesis
    proof (cases "\<exists>p n. i = Some p \<and> nm = Some n \<and> p \<noteq> []")
      case True
      then obtain p n where pn: "i = Some p" "nm = Some n" "p \<noteq> []" by blast
      let ?ls1 = "ls\<lparr>vp := (vp ls)\<lparr>tracker_id_to_person :=
                       (tracker_id_to_person (vp ls))(tracker_id t \<mapsto> (p, n))\<rparr>\<rparr>"
      from None Some rec pn assms(1)
      have "mark_attendance mark False p n ?ls1 = (r, ls')"
        by (simp add: process_detection_def)
      from mark_attendance_vp [OF this] assms(2) ne show ?thesis by simp
    next
      case False
      with None Some rec assms(1)
      have "unknown_track unknown fr t bf ls = (r, ls')"
        by (auto simp: process_detection_def split: option.splits if_splits)
      from unknown_track_cache [OF this] assms(2) show ?thesis by simp
    qed
  qed
qed

lemma process_detection_snap:
  assumes "process_detection mark unknown fr t ls = (r, ls')"
  shows "snap_step tid (logged_unknown_ids (vp ls)) (snap_count tid (snapshots ls)) (r = None)
           (logged_unknown_ids (vp ls')) (snap_count tid (snapshots ls'))"
proof (cases "tracker_id_to_person (vp ls) (tracker_id t)")
  case (Some pn)
  then obtain p n where "pn = (p, n)" by (cases pn)
  with Some assms(1) have "mark_attendance mark True p n ls = (r, ls')"
    by (simp add: process_detection_def)
  from mark_attendance_vp [OF this] show ?thesis by (simp add: snap_step_def)
next
  case None
  show ?thesis
  proof (cases "fst (best_face_loop (xyxy t) (faces fr) (None, 0))")
    case N: None
    with None assms show ?thesis by (auto simp: process_detection_def snap_step_def)
  next
    case (Some bf)
    obtain i nm s where rec: "recognize_face (handler fr) (embedding bf) = (i, nm, s)"
      by (metis prod.exhaust)
    show ?thesis
    proof (cases "\<exists>p n. i = Some p \<and> nm = Some n \<and> p \<noteq> []")
      case True
      then obtain p n where pn: "i = Some p" "nm = Some n" "p \<noteq> []" by blast
      let ?ls1 = "ls\<lparr>vp := (vp ls)\<lparr>tracker_id_to_person :=
                       (tracker_id_to_person (vp ls))(tracker_id t \<mapsto> (p, n))\<rparr>\<rparr>"
      from None Some rec pn assms(1)
      have "mark_attendance mark False p n ?ls1 = (r, ls')"
        by (simp add: process_detection_def)
      from mark_attendance_vp [OF this] show ?thesis by (simp add: snap_step_def)
    next
      case False
      with None Some rec assms(1)
      have "unknown_track unknown fr t bf ls = (r, ls')"
        by (auto simp: process_detection_def split: option.splits if_splits)
      from unknown_track_snap [OF this] show ?thesis .
    qed
  qed
qed

lemma process_loop_binding:
  "process_loop mark unknown fr ts ls = (r, ls') \<Longrightarrow>
   tracker_id_to_person (vp ls) k = Some b \<Longrightarrow> tracker_id_to_person (vp ls') k = Some b"
proof (induction ts arbitrary: ls)
  case Nil
  then show ?case by simp
next
  case (Cons t ts)
  obtain r1 ls1 where step: "process_detection mark unknown fr t ls = (r1, ls1)"
    by (metis prod.exhaust)
  from process_detection_binding [OF step Cons.prems(2)]
  have b1: "tracker_id_to_person (vp ls1) k = Some b" .
  show ?case
  proof (cases r1)
    case None
    with step Cons.prems(1) have "process_loop mark unknown fr ts ls1 = (r, ls')" by simp
    from Cons.IH [OF this b1] show ?thesis .
  next
    case (Some e)
    with step Cons.prems(1) have "ls' = ls1" by simp
    with b1 show ?thesis by simp
  qed
qed

lemma process_loop_snap:
  "process_loop mark unknown fr ts ls = (r, ls') \<Longrightarrow>
   snap_step tid (logged_unknown_ids (vp ls)) (snap_count tid (snapshots ls)) (r = None)
     (logged_unknown_ids (vp ls')) (snap_count tid (snapshots ls'))"
proof (induction ts arbitrary: ls)
  case Nil
  then show ?case by (simp add: snap_step_refl)
next
  case (Cons t ts)
  obtain r1 ls1 where step: "process_detection mark unknown fr t ls = (r1, ls1)"
    by (metis prod.exhaust)
  note s1 = process_detection_snap [OF step, of tid]
  show ?case
  proof (cases r1)
    case None
    with step Cons.prems(1) have "process_loop mark unknown fr ts ls1 = (r, ls')" by simp
    from Cons.IH [OF this] s1 None show ?thesis by (auto intro: snap_step_trans)
  next
    case (Some e)
    with step Cons.prems(1) have "ls' = ls1" "r = r1" by simp_all
    with s1 show ?thesis by simp
  qed
qed

lemma process_frame_binding:
  "process_frame mark unknown fr (v, c) = (out, snaps, (v', c')) \<Longrightarrow>
   tracker_id_to_person v k = Some b \<Longrightarrow> tracker_id_to_person v' k = Some b"
proof -
  assume pf: "process_frame mark unknown fr (v, c) = (out, snaps, (v', c'))"
    and b: "tracker_id_to_person v k = Some b"
  let ?ls = "\<lparr>vp = v, cb_state = c, labels = [], messages = [], snapshots = []\<rparr>"
  obtain r ls' where loop: "process_loop mark unknown fr (tracked_detections fr) ?ls = (r, ls')"
    by (metis prod.exhaust)
  from process_loop_binding [OF loop, of k b] b
  have "tracker_id_to_person (vp ls') k = Some b" by simp
  moreover from pf loop have "v' = vp ls'"
    by (auto simp: process_frame_def split: option.splits)
  ultimately show ?thesis by simp
qed

lemma process_frame_snap:
  "process_frame mark unknown fr (v, c) = (out, snaps, (v', c')) \<Longrightarrow>
   snap_step tid (logged_unknown_ids v) 0 (\<exists>res. out = Inr res)
     (logged_unknown_ids v') (snap_count tid snaps)"
proof -
  assume pf: "process_frame mark unknown fr (v, c) = (out, snaps, (v', c'))"
  let ?ls = "\<lparr>vp = v, cb_state = c, labels = [], messages = [], snapshots = []\<rparr>"
  obtain r ls' where loop: "process_loop mark unknown fr (tracked_detections fr) ?ls = (r, ls')"
    by (metis prod.exhaust)
  from process_loop_snap [OF loop, of tid]
  have s: "snap_step tid (logged_unknown_ids v) 0 (r = None)
             (logged_unknown_ids (vp ls')) (snap_count tid (snapshots ls'))"
    by (simp add: snap_count_def)
  from pf loop have "v' = vp ls'" "snaps = snapshots ls'" "(\<exists>res. out = Inr res) = (r = None)"
    by (auto simp: process_frame_def split: option.splits)
  with s show ?thesis by simp
qed

lemma run_frames_binding:
  "run_frames mark unknown frs (v, c) = (r, snaps, (v', c')) \<Longrightarrow>
   tracker_id_to_person v k = Some b \<Longrightarrow> tracker_id_to_person v' k = Some b"
proof (induction frs arbitrary: v c r snaps)
  case Nil
  then show ?case by simp
next
  case (Cons fr frs)
  obtain out s1 v1 c1 where pf: "process_frame mark unknown fr (v, c) = (out, s1, (v1, c1))"
    by (metis prod.exhaust)
  from process_frame_binding [OF pf Cons.prems(2)]
  have b1: "tracker_id_to_person v1 k = Some b" .
  show ?case
  proof (cases out)
    case (Inl e)
    with pf Cons.prems(1) have "v' = v1" by simp
    with b1 show ?thesis by simp
  next
    case (Inr res)
    obtain r2 s2 st2 where rest: "run_frames mark unknown frs (v1, c1) = (r2, s2, st2)"
      by (metis prod.exhaust)
    with Inr pf Cons.prems(1) have "st2 = (v', c')" by simp
    with rest Cons.IH [OF _ b1] show ?thesis by simp
  qed
qed

lemma run_frames_snap:
  "run_frames mark unknown frs (v, c) = (r, snaps, (v', c')) \<Longrightarrow>
   snap_step tid (logged_unknown_ids v) 0 (r = None)
     (logged_unknown_ids v') (snap_count tid snaps)"
proof (induction frs arbitrary: v c r snaps)
  case Nil
  then show ?case by (simp add: snap_step_def snap_count_def)
next
  case (Cons fr frs)
  obtain out s1 v1 c1 where pf: "process_frame mark unknown fr (v, c) = (out, s1, (v1, c1))"
    by (metis prod.exhaust)
  note st1 = process_frame_snap [OF pf, of tid]
  show ?case
  proof (cases out)
    case (Inl e)
    with pf Cons.prems(1) have "v' = v1" "snaps = s1" "r = Some e" by simp_all
    with st1 Inl show ?thesis by simp
  next
    case (Inr res)
    obtain r2 s2 st2 where rest: "run_frames mark unknown frs (v1, c1) = (r2, s2, st2)"
      by (metis prod.exhaust)
    with Inr pf Cons.prems(1) have eq: "st2 = (v', c')" "snaps = s1 @ s2" "r = r2" by simp_all
    from rest eq Cons.IH [of v1 c1 r2 s2]
    have st2: "snap_step tid (logged_unknown_ids v1) 0 (r = None)
                 (logged_unknown_ids v') (snap_count tid s2)" by simp
    from st1 Inr have a: "snap_step tid (logged_unknown_ids v) 0 True
                 (logged_unknown_ids v1) (snap_count tid s1)" by simp
    from a st2 show ?thesis
      unfolding snap_step_def eq(2) snap_count_append by auto
  qed
qed

text \<open>
  Claim C1. A track id bound to a \<open>(person_id, name)\<close> pair keeps that pair through
  \<open>process_frame\<close>, whatever the frame, the registry, the callbacks and the outcome of
  the call, and so through any number of frames. The loop body for a bound track does
  not depend on the frame's faces or on the registry: recognition is not consulted. Only
  \<open>clear_cache\<close> removes the binding.
\<close>

theorem bound_track_never_rebound:
  assumes "tracker_id_to_person v tid = Some b"
  shows "tracker_id_to_person (fst (snd (snd (process_frame mark unknown fr (v, c))))) tid = Some b
       \<and> tracker_id_to_person (fst (snd (snd (run_frames mark unknown frs (v, c))))) tid = Some b
       \<and> (vp ls = v \<and> tracker_id t = tid \<and> tracker_id t' = tid \<longrightarrow>
            process_detection mark unknown fr t ls = process_detection mark unknown fr' t' ls)
       \<and> tracker_id_to_person (clear_cache v) tid = None"
proof (intro conjI impI)
  obtain out snaps v' c' where pf: "process_frame mark unknown fr (v, c) = (out, snaps, (v', c'))"
    by (metis prod.exhaust)
  from process_frame_binding [OF pf assms] pf
  show "tracker_id_to_person (fst (snd (snd (process_frame mark unknown fr (v, c))))) tid = Some b"
    by simp
next
  obtain r snaps v' c' where rf: "run_frames mark unknown frs (v, c) = (r, snaps, (v', c'))"
    by (metis prod.exhaust)
  from run_frames_binding [OF rf assms] rf
  show "tracker_id_to_person (fst (snd (snd (run_frames mark unknown frs (v, c))))) tid = Some b"
    by simp
next
  assume "vp ls = v \<and> tracker_id t = tid \<and> tracker_id t' = tid"
  with assms show "process_detection mark unknown fr t ls = process_detection mark unknown fr' t' ls"
    by (simp add: process_detection_def)
next
  show "tracker_id_to_person (clear_cache v) tid = None"
    by (simp add: clear_cache_def)
qed

text \<open>
  Claim C6. Over any sequence of frames processed by the frame loop, from any state of the
  processor and with any callbacks, at most one snapshot is taken and handed to the
  unknown-person callback for a track id. A track id already in \<open>logged_unknown_ids\<close> gets
  none; a track id that got one is in \<open>logged_unknown_ids\<close> afterwards, and the set never
  shrinks while frames are processed.
\<close>

theorem unknown_snapshot_once:
  assumes "run_frames mark unknown frs (v, c) = (r, snaps, (v', c'))"
  shows "snap_count tid snaps \<le> 1
       \<and> (tid \<in> logged_unknown_ids v \<longrightarrow> snap_count tid snaps = 0)
       \<and> (snap_count tid snaps = 1 \<and> r = None \<longrightarrow> tid \<in> logged_unknown_ids v')
       \<and> logged_unknown_ids v \<subseteq> logged_unknown_ids v'"
  using run_frames_snap [OF assms, of tid] unfolding snap_step_def by auto

lemma sim_demo_6: "calculate_similarity [0, - 1] [3, 4] = - (8 / 10)"
  by (simp add: calculate_similarity_def np_dot_def np_linalg_norm_def sqrt_25)

lemma sim_demo_7: "calculate_similarity [0, - 1] [1, 0] = 0"
  by (simp add: calculate_similarity_def np_dot_def np_linalg_norm_def)

lemma str_int_8: "str_int 8 = ''8''"
  by code_simp

lemma demo_frame_run:
  "process_frame None (Some recorder) (demo_frame s) (bound_processor, [])
     = (Inr ([''Asha (E001)'', ''Unknown #8''], [''Logged Unknown Person #8'']),
        [(8, os_path_join UNKNOWN_FACES_DIR (''unknown_'' @ s @ ''.jpg''))],
        (bound_processor\<lparr>logged_unknown_ids := {8}\<rparr>,
         [os_path_join UNKNOWN_FACES_DIR (''unknown_'' @ s @ ''.jpg'')]))"
  by (simp add: process_frame_def process_detection_def mark_attendance_def unknown_track_def
      demo_frame_def bound_processor_def recorder_def known_face_def stranger_face_def
      recognize_face_def demo_handler_def demo_registry_def sim_demo_6 sim_demo_7
      py_trunc_def py_slice_len_def str_int_8 Let_def)

lemma demo_frame_again:
  "process_frame None (Some recorder) (demo_frame s) (bound_processor\<lparr>logged_unknown_ids := {8}\<rparr>, paths)
     = (Inr ([''Asha (E001)'', ''Unknown #8''], []), [],
        (bound_processor\<lparr>logged_unknown_ids := {8}\<rparr>, paths))"
  by (simp add: process_frame_def process_detection_def mark_attendance_def unknown_track_def
      demo_frame_def bound_processor_def recorder_def known_face_def stranger_face_def
      recognize_face_def demo_handler_def demo_registry_def sim_demo_6 sim_demo_7
      py_trunc_def py_slice_len_def str_int_8 Let_def)

lemma demo_frame_fresh:
  "tracker_id_to_person
     (fst (snd (snd (process_frame None (Some recorder) (demo_frame s) (init_video_processor, [])))))
     7 = Some (''E002'', ''Bala'')"
  by (simp add: process_frame_def process_detection_def mark_attendance_def unknown_track_def
      demo_frame_def init_video_processor_def recorder_def known_face_def stranger_face_def
      recognize_face_def demo_handler_def demo_registry_def sim_demo_1 sim_demo_2 sim_demo_6
      sim_demo_7 py_trunc_def py_slice_len_def str_int_8 Let_def)

lemma demo_frames_run:
  "run_frames None (Some recorder)
     [demo_frame ''20240301_170000_000001'', demo_frame ''20240301_170000_040000'',
      demo_frame ''20240301_170000_080000''] (bound_processor, [])
   = (None,
      [(8, os_path_join UNKNOWN_FACES_DIR ''unknown_20240301_170000_000001.jpg'')],
      (bound_processor\<lparr>logged_unknown_ids := {8}\<rparr>,
       [os_path_join UNKNOWN_FACES_DIR ''unknown_20240301_170000_000001.jpg'']))"
  by (simp add: demo_frame_run demo_frame_again)

text \<open>
  Witness for C1: the face on track 7 matches E002 best, and a fresh processor binds
  track 7 to E002; a processor that has track 7 bound to E001 keeps E001.
\<close>

theorem bound_track_never_rebound_witness:
  "recognize_face demo_handler (embedding known_face) = (Some ''E002'', Some ''Bala'', 1)
   \<and> tracker_id_to_person
        (fst (snd (snd (process_frame None (Some recorder) (demo_frame ''s'')
                          (init_video_processor, []))))) 7 = Some (''E002'', ''Bala'')
   \<and> tracker_id_to_person bound_processor 7 = Some (''E001'', ''Asha'')
   \<and> tracker_id_to_person
        (fst (snd (snd (process_frame None (Some recorder) (demo_frame ''s'')
                          (bound_processor, []))))) 7 = Some (''E001'', ''Asha'')
   \<and> tracker_id_to_person (clear_cache bound_processor) 7 = None"
proof -
  have rec: "recognize_face demo_handler (embedding known_face) = (Some ''E002'', Some ''Bala'', 1)"
    by (simp add: recognize_face_def demo_handler_def demo_registry_def known_face_def
        sim_demo_1 sim_demo_2)
  have b: "tracker_id_to_person bound_processor 7 = Some (''E001'', ''Asha'')"
    by (simp add: bound_processor_def)
  from bound_track_never_rebound [OF b, of None "Some recorder" "demo_frame ''s''" "[]"]
    rec b demo_frame_fresh [of "''s''"]
  show ?thesis by simp
qed

text \<open>
  Witness for C6: a stranger stays on track 8 for three frames; one snapshot is written
  and the collaborator receives one path. A track already logged gets none.
\<close>

theorem unknown_snapshot_once_witness:
  "snap_count 8
     (fst (snd (run_frames None (Some recorder)
        [demo_frame ''20240301_170000_000001'', demo_frame ''20240301_170000_040000'',
         demo_frame ''20240301_170000_080000''] (bound_processor, [])))) = 1
   \<and> 8 \<in> logged_unknown_ids
        (fst (snd (snd (run_frames None (Some recorder)
           [demo_frame ''20240301_170000_000001'', demo_frame ''20240301_170000_040000'',
            demo_frame ''20240301_170000_080000''] (bound_processor, [])))))
   \<and> length (snd (snd (snd (run_frames None (Some recorder)
           [demo_frame ''20240301_170000_000001'', demo_frame ''20240301_170000_040000'',
            demo_frame ''20240301_170000_080000''] (bound_processor, []))))) = 1
   \<and> snap_count 8
        (fst (snd (run_frames None (Some recorder) [demo_frame ''20240301_170000_120000'']
           (bound_processor\<lparr>logged_unknown_ids := {8}\<rparr>, [])))) = 0"
proof -
  let ?p = "os_path_join UNKNOWN_FACES_DIR ''unknown_20240301_170000_000001.jpg''"
  have one: "snap_count 8 [(8, ?p)] = 1" by (simp add: snap_count_def)
  have again: "run_frames None (Some recorder) [demo_frame ''20240301_170000_120000'']
           (bound_processor\<lparr>logged_unknown_ids := {8}\<rparr>, [])
         = (None, [], (bound_processor\<lparr>logged_unknown_ids := {8}\<rparr>, []))"
    by (simp add: demo_frame_again)
  have marked: "(8::int) \<in> logged_unknown_ids (bound_processor\<lparr>logged_unknown_ids := {8}\<rparr>)"
    by simp
  note first = unknown_snapshot_once [OF demo_frames_run, of 8]
  note later = unknown_snapshot_once [OF again, of 8]
  show ?thesis
    unfolding demo_frames_run again
    using first later one marked by simp
qed

end
